theory Spec2Isabelle
  imports Complex_Main
begin

section \<open>Frame scheduler: GameLoopController\<close>

text \<open>
  The controller keeps the identifier of the pending frame request and the timestamp of
  the previous frame. JavaScript numbers are modelled as reals. The two callbacks are
  collaborators; each invocation is recorded in the list of calls that a frame makes.
\<close>

record GameLoopController =
  animationFrameId :: "nat option"
  lastTime :: real

datatype loop_call = UpdateCallback real | RenderCallback real

text \<open>\<^verbatim>\<open>start()\<close>: resets \<^verbatim>\<open>lastTime\<close> and requests the first frame (identifier \<open>rid\<close>).\<close>

definition start :: "GameLoopController \<Rightarrow> nat \<Rightarrow> GameLoopController" where
  "start c rid = c\<lparr>lastTime := 0, animationFrameId := Some rid\<rparr>"

text \<open>\<^verbatim>\<open>stop()\<close>: an identifier of 0 is falsy in JavaScript, so it is not cancelled.\<close>

definition stop :: "GameLoopController \<Rightarrow> GameLoopController" where
  "stop c = (case animationFrameId c of
               None \<Rightarrow> c
             | Some i \<Rightarrow> if i = 0 then c else c\<lparr>animationFrameId := None\<rparr>)"

text \<open>\<^verbatim>\<open>Math.min((currentTime - this.lastTime) / 1000, 0.02)\<close>\<close>

definition deltaTime :: "GameLoopController \<Rightarrow> real \<Rightarrow> real" where
  "deltaTime c currentTime = min ((currentTime - lastTime c) / 1000) 0.02"

definition gameLoop :: "GameLoopController \<Rightarrow> real \<Rightarrow> nat \<Rightarrow> loop_call list \<times> GameLoopController" where
  "gameLoop c currentTime rid =
     (let dt = deltaTime c currentTime;
          c1 = c\<lparr>lastTime := currentTime\<rparr>
      in ([UpdateCallback dt, RenderCallback dt], c1\<lparr>animationFrameId := Some rid\<rparr>))"

text \<open>The clamp that the specification describes: \<open>clamp x lo hi\<close>.\<close>

definition clamp :: "real \<Rightarrow> real \<Rightarrow> real \<Rightarrow> real" where
  "clamp x lo hi = max lo (min x hi)"

section \<open>Wave director: WaveManager\<close>

datatype BossType = necromancer | vampire_lord | ancient_golem

text \<open>
  Entities returned by the director. A boss carries its position, its type
  (\<open>None\<close> for JavaScript's \<^verbatim>\<open>undefined\<close>, the result of an out-of-range array
  read) and the wave it was created in. Regular enemies come from the enemy factory,
  which receives a position and the wave number.
\<close>

datatype Enemy =
    BossEnemy real real "BossType option" int
  | FactoryEnemy real real int

fun isBoss :: "Enemy \<Rightarrow> bool" where
  "isBoss (BossEnemy x y t w) = True"
| "isBoss (FactoryEnemy x y w) = False"

datatype wave_event = BossWarning | BossSpawn Enemy

text \<open>
  The fields \<^verbatim>\<open>waveDuration\<close>, \<^verbatim>\<open>maxEnemiesCap\<close>, \<^verbatim>\<open>bossSpawnInterval\<close> and
  \<^verbatim>\<open>bossWarningTime\<close> are never assigned after initialisation; they are constants here.
  The two callback fields record whether a callback has been registered.
\<close>

record WaveManager =
  currentWave :: int
  spawnTimer :: real
  spawnInterval :: real
  waveStartTime :: real
  maxActiveEnemies :: nat
  bossSpawned :: bool
  bossDefeated :: bool
  bossWarningTriggered :: bool
  timeUntilBoss :: real
  onBossWarning :: bool
  onBossSpawn :: bool

definition waveDuration :: real where "waveDuration = 30"
definition maxEnemiesCap :: nat where "maxEnemiesCap = 80"
definition bossSpawnInterval :: int where "bossSpawnInterval = 5"
definition bossWarningTime :: real where "bossWarningTime = 5"

definition newWaveManager :: WaveManager where
  "newWaveManager = \<lparr> currentWave = 1, spawnTimer = 0, spawnInterval = 2, waveStartTime = 0,
     maxActiveEnemies = 25, bossSpawned = False, bossDefeated = False,
     bossWarningTriggered = False, timeUntilBoss = 0,
     onBossWarning = False, onBossSpawn = False \<rparr>"

text \<open>JavaScript's \<^verbatim>\<open>%\<close> on integers: the remainder takes the sign of the dividend.\<close>

definition js_rem :: "int \<Rightarrow> int \<Rightarrow> int" where
  "js_rem a b = sgn a * (\<bar>a\<bar> mod \<bar>b\<bar>)"

definition isBossWave :: "WaveManager \<Rightarrow> bool" where
  "isBossWave s = (js_rem (currentWave s) bossSpawnInterval = 0)"

definition onBossDefeated :: "WaveManager \<Rightarrow> WaveManager" where
  "onBossDefeated s = s\<lparr>bossDefeated := True\<rparr>"

definition isBossActive :: "WaveManager \<Rightarrow> bool" where
  "isBossActive s = (isBossWave s \<and> bossSpawned s \<and> \<not> bossDefeated s)"

definition getTimeUntilBoss :: "WaveManager \<Rightarrow> real" where
  "getTimeUntilBoss s =
     (if \<not> isBossWave s \<or> bossSpawned s then 0
      else max 0 (bossWarningTime - waveStartTime s))"

definition setOnBossWarning :: "WaveManager \<Rightarrow> WaveManager" where
  "setOnBossWarning s = s\<lparr>onBossWarning := True\<rparr>"

definition setOnBossSpawn :: "WaveManager \<Rightarrow> WaveManager" where
  "setOnBossSpawn s = s\<lparr>onBossSpawn := True\<rparr>"

definition getCurrentWave :: "WaveManager \<Rightarrow> int" where
  "getCurrentWave s = currentWave s"

definition WaveManager_reset :: "WaveManager \<Rightarrow> WaveManager" where
  "WaveManager_reset s = s\<lparr>currentWave := 1, spawnTimer := 0, waveStartTime := 0, spawnInterval := 2,
     maxActiveEnemies := 25, bossSpawned := False, bossDefeated := False,
     bossWarningTriggered := False, timeUntilBoss := 0\<rparr>"

definition advanceWave :: "WaveManager \<Rightarrow> WaveManager" where
  "advanceWave s = s\<lparr>currentWave := currentWave s + 1, waveStartTime := 0,
     spawnInterval := max 1 (spawnInterval s * 0.97),
     maxActiveEnemies := min maxEnemiesCap (maxActiveEnemies s + 5),
     bossSpawned := False, bossDefeated := False, bossWarningTriggered := False,
     timeUntilBoss := 0\<rparr>"

definition WaveManager_update :: "WaveManager \<Rightarrow> real \<Rightarrow> wave_event list \<times> WaveManager" where
  "WaveManager_update s dt =
     (let s1 = s\<lparr>waveStartTime := waveStartTime s + dt, spawnTimer := spawnTimer s + dt\<rparr>
      in if isBossWave s1 \<and> \<not> bossSpawned s1 then
           (let s2 = s1\<lparr>timeUntilBoss := max 0 (bossWarningTime - waveStartTime s1)\<rparr>
            in if waveStartTime s2 \<ge> bossWarningTime - 5 \<and> \<not> bossWarningTriggered s2
               then (if onBossWarning s2 then [BossWarning] else [],
                     s2\<lparr>bossWarningTriggered := True\<rparr>)
               else ([], s2))
         else ([], s1))"

text \<open>
  Spawn geometry. The two calls of \<^verbatim>\<open>Math.random()\<close> that every path makes are the
  arguments \<open>r1\<close> and \<open>r2\<close>; \<open>margin\<close> and the ring radius are the only differences
  between a boss position and a regular one.
\<close>

definition spawnPoint ::
  "real \<Rightarrow> real \<Rightarrow> real \<Rightarrow> real \<Rightarrow> (real \<times> real) option \<Rightarrow> real \<Rightarrow> real \<Rightarrow> real \<times> real" where
  "spawnPoint margin ring canvasWidth canvasHeight playerPos r1 r2 =
     (case playerPos of
        Some (px, py) \<Rightarrow>
          (let angle = r1 * pi * 2; distance = ring + r2 * 200
           in (px + cos angle * distance, py + sin angle * distance))
      | None \<Rightarrow>
          (let edge = \<lfloor>r1 * 4\<rfloor>
           in if edge = 0 then (r2 * canvasWidth, - margin)
              else if edge = 1 then (canvasWidth + margin, r2 * canvasHeight)
              else if edge = 2 then (r2 * canvasWidth, canvasHeight + margin)
              else if edge = 3 then (- margin, r2 * canvasHeight)
              else (canvasWidth / 2, - margin)))"

definition bossTypes :: "BossType list" where
  "bossTypes = [necromancer, vampire_lord, ancient_golem]"

definition bossIndex :: "int \<Rightarrow> int" where
  "bossIndex wave = js_rem \<lfloor>real_of_int wave / real_of_int bossSpawnInterval - 1\<rfloor> (int (length bossTypes))"

definition bossTypeAt :: "int \<Rightarrow> BossType option" where
  "bossTypeAt i = (if 0 \<le> i \<and> i < int (length bossTypes) then Some (bossTypes ! nat i) else None)"

definition spawnBoss ::
  "WaveManager \<Rightarrow> real \<Rightarrow> real \<Rightarrow> (real \<times> real) option \<Rightarrow> real \<Rightarrow> real \<Rightarrow> Enemy" where
  "spawnBoss s canvasWidth canvasHeight playerPos r1 r2 =
     (let bossType = bossTypeAt (bossIndex (currentWave s));
          (x, y) = spawnPoint 200 400 canvasWidth canvasHeight playerPos r1 r2
      in BossEnemy x y bossType (currentWave s))"

definition spawnSpecificBoss ::
  "WaveManager \<Rightarrow> real \<Rightarrow> real \<Rightarrow> BossType \<Rightarrow> (real \<times> real) option \<Rightarrow> real \<Rightarrow> real \<Rightarrow> Enemy" where
  "spawnSpecificBoss s canvasWidth canvasHeight bossType playerPos r1 r2 =
     (let (x, y) = spawnPoint 200 400 canvasWidth canvasHeight playerPos r1 r2
      in BossEnemy x y (Some bossType) (currentWave s))"

definition getSpawnPosition ::
  "real \<Rightarrow> real \<Rightarrow> (real \<times> real) option \<Rightarrow> real \<Rightarrow> real \<Rightarrow> real \<times> real" where
  "getSpawnPosition canvasWidth canvasHeight playerPos r1 r2 =
     spawnPoint 50 300 canvasWidth canvasHeight playerPos r1 r2"

definition createRandomEnemy ::
  "WaveManager \<Rightarrow> real \<Rightarrow> real \<Rightarrow> (real \<times> real) option \<Rightarrow> real \<Rightarrow> real \<Rightarrow> Enemy" where
  "createRandomEnemy s canvasWidth canvasHeight playerPos r1 r2 =
     (let (x, y) = getSpawnPosition canvasWidth canvasHeight playerPos r1 r2
      in FactoryEnemy x y (currentWave s))"

text \<open>
  \<^verbatim>\<open>spawnEnemies\<close> returns the new enemies, the callbacks it fired, and the new state.
  \<open>bossPhase\<close> is the first \<^verbatim>\<open>if\<close> of the boss-wave branch (the boss spawn), the rest
  of the branch follows in \<open>spawnEnemies\<close>.
\<close>

definition bossPhase ::
  "WaveManager \<Rightarrow> real \<Rightarrow> real \<Rightarrow> (real \<times> real) option \<Rightarrow> real \<Rightarrow> real
     \<Rightarrow> Enemy list \<times> wave_event list \<times> WaveManager" where
  "bossPhase s canvasWidth canvasHeight playerPos r1 r2 =
     (if \<not> bossSpawned s \<and> waveStartTime s \<ge> bossWarningTime then
        (let boss = spawnBoss s canvasWidth canvasHeight playerPos r1 r2
         in ([boss], if onBossSpawn s then [BossSpawn boss] else [], s\<lparr>bossSpawned := True\<rparr>))
      else ([], [], s))"

definition spawnEnemies ::
  "WaveManager \<Rightarrow> real \<Rightarrow> real \<Rightarrow> nat \<Rightarrow> (real \<times> real) option \<Rightarrow> real \<Rightarrow> real
     \<Rightarrow> Enemy list \<times> wave_event list \<times> WaveManager" where
  "spawnEnemies s canvasWidth canvasHeight currentEnemyCount playerPos r1 r2 =
     (if isBossWave s then
        (case bossPhase s canvasWidth canvasHeight playerPos r1 r2 of
           (enemies, evs, s1) \<Rightarrow>
             if bossSpawned s1 \<and> \<not> bossDefeated s1 then (enemies, evs, s1)
             else if bossDefeated s1 \<and> waveStartTime s1 \<ge> waveDuration
               then (enemies, evs, advanceWave s1)
             else (enemies, evs, s1))
      else
        (let s1 = (if waveStartTime s \<ge> waveDuration then advanceWave s else s)
         in if spawnTimer s1 \<ge> spawnInterval s1 \<and> currentEnemyCount < maxActiveEnemies s1
            then ([createRandomEnemy s1 canvasWidth canvasHeight playerPos r1 r2], [],
                  s1\<lparr>spawnTimer := 0\<rparr>)
            else ([], [], s1)))"

section \<open>Input adapter: InputManager\<close>

record InputState =
  left :: bool
  right :: bool
  up :: bool
  down :: bool
  mute :: bool
  restart :: bool
  pause :: bool
  weapon1 :: bool
  weapon2 :: bool
  weapon3 :: bool
  weapon4 :: bool
  weapon5 :: bool

text \<open>
  \<^verbatim>\<open>keys\<close> is a dictionary from key codes to booleans; a missing entry reads as
  \<^verbatim>\<open>undefined\<close>, which every reader of the dictionary treats as false.
\<close>

record InputManager =
  keys :: "string \<Rightarrow> bool"
  ignoreUntilRelease :: "string set"
  isPaused :: bool
  listenersAttached :: bool

definition newInputManager :: InputManager where
  "newInputManager = \<lparr> keys = (\<lambda>k. False), ignoreUntilRelease = {}, isPaused = False,
     listenersAttached = False \<rparr>"

definition addEventListeners :: "InputManager \<Rightarrow> InputManager" where
  "addEventListeners m = (if listenersAttached m then m else m\<lparr>listenersAttached := True\<rparr>)"

definition removeEventListeners :: "InputManager \<Rightarrow> InputManager" where
  "removeEventListeners m = (if \<not> listenersAttached m then m else m\<lparr>listenersAttached := False\<rparr>)"

definition handleKeyDown :: "InputManager \<Rightarrow> string \<Rightarrow> InputManager" where
  "handleKeyDown m code =
     (let isMovementKey = (code \<in> set [''KeyW'', ''KeyA'', ''KeyS'', ''KeyD'',
                                          ''ArrowUp'', ''ArrowDown'', ''ArrowLeft'', ''ArrowRight''])
      in if isMovementKey \<and> isPaused m then m
         else if code \<notin> ignoreUntilRelease m then m\<lparr>keys := (keys m)(code := True)\<rparr>
         else m)"

definition handleKeyUp :: "InputManager \<Rightarrow> string \<Rightarrow> InputManager" where
  "handleKeyUp m code =
     m\<lparr>keys := (keys m)(code := False), ignoreUntilRelease := ignoreUntilRelease m - {code}\<rparr>"

definition emptyInput :: InputState where
  "emptyInput = \<lparr> left = False, right = False, up = False, down = False, mute = False,
     restart = False, pause = False, weapon1 = False, weapon2 = False, weapon3 = False,
     weapon4 = False, weapon5 = False \<rparr>"

definition getInput :: "InputManager \<Rightarrow> bool \<Rightarrow> InputState" where
  "getInput m paused =
     (if paused then
        \<lparr> left = False, right = False, up = False, down = False, mute = False,
          restart = False, pause = False, weapon1 = False, weapon2 = False, weapon3 = False,
          weapon4 = False, weapon5 = False \<rparr>
      else
        \<lparr> left = (keys m ''KeyA'' \<or> keys m ''ArrowLeft''),
          right = (keys m ''KeyD'' \<or> keys m ''ArrowRight''),
          up = (keys m ''KeyW'' \<or> keys m ''ArrowUp''),
          down = (keys m ''KeyS'' \<or> keys m ''ArrowDown''),
          mute = (keys m ''m'' \<or> keys m ''M''),
          restart = (keys m ''r'' \<or> keys m ''R''),
          pause = keys m ''Escape'',
          weapon1 = keys m ''1'', weapon2 = keys m ''2'', weapon3 = keys m ''3'',
          weapon4 = keys m ''4'', weapon5 = keys m ''5'' \<rparr>)"

definition setPaused :: "InputManager \<Rightarrow> bool \<Rightarrow> InputManager" where
  "setPaused m paused = m\<lparr>isPaused := paused\<rparr>"

definition movementKeys :: "string list" where
  "movementKeys = [''KeyW'', ''ArrowUp'', ''KeyS'', ''ArrowDown'',
                   ''KeyA'', ''ArrowLeft'', ''KeyD'', ''ArrowRight'']"

text \<open>The body of the \<^verbatim>\<open>forEach\<close> in \<^verbatim>\<open>clearMovementKeys\<close>, and the loop itself.\<close>

definition clearKey :: "InputManager \<Rightarrow> string \<Rightarrow> InputManager" where
  "clearKey m key =
     (let m1 = (if keys m key then m\<lparr>ignoreUntilRelease := insert key (ignoreUntilRelease m)\<rparr>
                else m)
      in m1\<lparr>keys := (keys m1)(key := False)\<rparr>)"

definition clearMovementKeys :: "InputManager \<Rightarrow> InputManager" where
  "clearMovementKeys m = foldl clearKey m movementKeys"

text \<open>Whether the snapshot asks for any movement.\<close>

definition movementRequested :: "InputState \<Rightarrow> bool" where
  "movementRequested i = (left i \<or> right i \<or> up i \<or> down i)"

section \<open>The shared game-state store\<close>

datatype GamePhase = ready | playing | paused | levelUp | gameOver | ended | characterSelect

text \<open>The fields of the store that the frame logic reads.\<close>

record GameState =
  phase :: GamePhase
  health :: real
  score :: int
  wave :: int

text \<open>
  Modelled from the spec: the store's \<^verbatim>\<open>pause()\<close>, \<^verbatim>\<open>resume()\<close> and \<^verbatim>\<open>end()\<close>
  actions are defined in the store module, which is not among the sources. The phase
  state machine of the specification gives \<open>playing \<rightarrow> paused\<close> on pause,
  \<open>paused \<rightarrow> playing\<close> on resume, and \<open>playing \<rightarrow> gameOver\<close> when the run ends.
\<close>

definition gs_pause :: "GameState \<Rightarrow> GameState" where
  "gs_pause st = (if phase st = playing then st\<lparr>phase := paused\<rparr> else st)"

definition gs_resume :: "GameState \<Rightarrow> GameState" where
  "gs_resume st = (if phase st = paused then st\<lparr>phase := playing\<rparr> else st)"

definition gs_end :: "GameState \<Rightarrow> GameState" where
  "gs_end st = (if phase st = playing then st\<lparr>phase := gameOver\<rparr> else st)"

definition setWave :: "GameState \<Rightarrow> int \<Rightarrow> GameState" where
  "setWave st w = st\<lparr>wave := w\<rparr>"

section \<open>Calls to collaborators\<close>

text \<open>
  Player, entity registry, camera, collision handler, audio, statistics and progression
  are collaborators. A frame is modelled by the list of calls it makes to them, in
  program order, together with the new state of the parts modelled here.
\<close>

datatype call =
    PlayerUpdate real InputState
  | EntityManagerUpdate real "real \<times> real"
  | FireWeapon real
  | AddProjectiles
  | CameraUpdate real
  | AddEnemies "Enemy list"
  | AddBoss Enemy
  | HandleBossSpawn Enemy
  | TriggerBossWarning "BossType option"
  | HandleAllCollisions
  | ComboUpdate real
  | StoreSetCombo
  | ScreenShakeUpdate real
  | SaveSessionSnapshot
  | CreateDeathParticles
  | RecordRun int int
  | RecordRunEnd int int
  | AddCurrency int
  | LoadCurrency
  | ClearSessionSnapshot
  | PlayPlayerHurt
  | SetTimeoutEnd real
  | AddBossLoot
  | AddExperienceOrb
  | StoreAddCurrency
  | StoreAddBossKill
  | StoreOnBossDefeated
  | PlaySuccess

text \<open>
  What the host and the collaborators answer during one frame: the wall clock
  (\<^verbatim>\<open>Date.now()\<close>, in milliseconds), the canvas size, the player's position, the number
  of enemies in the registry, two random numbers, the mute flag, whether the tracked boss
  is still alive, and the changes that collision handling makes to the store.
\<close>

record FrameEnv =
  env_now :: real
  env_canvasWidth :: real
  env_canvasHeight :: real
  env_playerPos :: "real \<times> real"
  env_enemyCount :: nat
  env_rand1 :: real
  env_rand2 :: real
  env_muted :: bool
  env_bossAlive :: bool
  env_collisions :: "GameState \<Rightarrow> GameState"

section \<open>Phase and progress coordinator: GameStateManager\<close>

record GameStateManager =
  gameStartTime :: real
  totalDamageDealt :: real
  totalDamageTaken :: real
  lastStatsSaveTime :: real
  lastPauseState :: bool

definition STATS_SAVE_INTERVAL :: real where "STATS_SAVE_INTERVAL = 30000"

definition newGameStateManager :: "real \<Rightarrow> GameStateManager" where
  "newGameStateManager now = \<lparr> gameStartTime = now, totalDamageDealt = 0, totalDamageTaken = 0,
     lastStatsSaveTime = 0, lastPauseState = False \<rparr>"

definition saveCurrentSessionStats ::
  "GameStateManager \<Rightarrow> GameState \<Rightarrow> real \<Rightarrow> call list \<times> GameStateManager" where
  "saveCurrentSessionStats g st now =
     (if phase st \<noteq> playing \<and> phase st \<noteq> paused then ([], g)
      else ([SaveSessionSnapshot], g\<lparr>lastStatsSaveTime := now\<rparr>))"

definition GameStateManager_update ::
  "GameStateManager \<Rightarrow> GameState \<Rightarrow> real \<Rightarrow> real \<Rightarrow> call list \<times> GameStateManager" where
  "GameStateManager_update g st dt now =
     (let cs = [ComboUpdate dt, StoreSetCombo, ScreenShakeUpdate dt]
      in if now - lastStatsSaveTime g \<ge> STATS_SAVE_INTERVAL
         then (case saveCurrentSessionStats g st now of (cs1, g1) \<Rightarrow> (cs @ cs1, g1))
         else (cs, g))"

text \<open>
  \<^verbatim>\<open>handlePauseInput\<close> returns whether the phase was toggled, the calls made, the
  manager and the store.
\<close>

definition handlePauseInput ::
  "GameStateManager \<Rightarrow> GameState \<Rightarrow> InputState \<Rightarrow> real
     \<Rightarrow> bool \<times> call list \<times> GameStateManager \<times> GameState" where
  "handlePauseInput g st input now =
     (if pause input \<and> \<not> lastPauseState g \<and> phase st = playing then
        (case saveCurrentSessionStats g st now of
           (cs, g1) \<Rightarrow> (True, cs, g1\<lparr>lastPauseState := pause input\<rparr>, gs_pause st))
      else if pause input \<and> \<not> lastPauseState g \<and> phase st = paused then
        (True, [], g\<lparr>lastPauseState := pause input\<rparr>, gs_resume st)
      else (False, [], g\<lparr>lastPauseState := pause input\<rparr>, st))"

definition checkPlayerDeath :: "GameState \<Rightarrow> bool" where
  "checkPlayerDeath st = (health st \<le> 0 \<and> phase st = playing)"

text \<open>
  \<^verbatim>\<open>handlePlayerDeath\<close>: the calls, in order. The phase is not changed here: the
  store's \<^verbatim>\<open>end()\<close> is deferred by \<^verbatim>\<open>setTimeout(..., 50)\<close>.
\<close>

definition handlePlayerDeath :: "GameStateManager \<Rightarrow> GameState \<Rightarrow> bool \<Rightarrow> real \<Rightarrow> call list" where
  "handlePlayerDeath g st muted now =
     (let playTime = \<lfloor>(now - gameStartTime g) / 1000\<rfloor>;
          currencyEarned = score st div 100 + wave st * 10
      in [CreateDeathParticles, RecordRun (score st) playTime, RecordRunEnd (score st) playTime,
          AddCurrency currencyEarned, LoadCurrency, ClearSessionSnapshot]
         @ (if \<not> muted then [PlayPlayerHurt] else [])
         @ [SetTimeoutEnd 50])"

definition bossWarningIndex :: "int \<Rightarrow> int" where
  "bossWarningIndex w = js_rem \<lfloor>real_of_int w / 5 - 1\<rfloor> 3"

definition handleBossWarning :: "int \<Rightarrow> call list" where
  "handleBossWarning w = [TriggerBossWarning (bossTypeAt (bossWarningIndex w))]"

definition handleBossSpawn :: "Enemy \<Rightarrow> call list" where
  "handleBossSpawn boss = [HandleBossSpawn boss]"

section \<open>Simulation orchestrator: GameEngine\<close>

text \<open>
  The engine owns the managers; the store is a process-wide singleton and is kept beside
  them (a new engine finds the store as it is). \<open>pendingEnd\<close> holds the due times of the \<^verbatim>\<open>setTimeout\<close> callbacks that
  will call the store's \<^verbatim>\<open>end()\<close>.
\<close>

record GameEngine =
  gameStateManager :: GameStateManager
  waveManager :: WaveManager
  inputManager :: InputManager
  store :: GameState
  currentBoss :: "Enemy option"
  ge_isBossActive :: bool
  ge_gameStartTime :: real
  ge_lastStatsSaveTime :: real
  ge_isPaused :: bool
  previousPhase :: GamePhase
  pendingEnd :: "real list"

definition newGameEngine :: "real \<Rightarrow> GameState \<Rightarrow> GameEngine" where
  "newGameEngine now st = \<lparr> gameStateManager = newGameStateManager now,
     waveManager = setOnBossSpawn (setOnBossWarning newWaveManager),
     inputManager = addEventListeners newInputManager,
     store = st,
     currentBoss = None, ge_isBossActive = False, ge_gameStartTime = now,
     ge_lastStatsSaveTime = 0, ge_isPaused = False, previousPhase = ready, pendingEnd = [] \<rparr>"

text \<open>The callbacks registered in \<^verbatim>\<open>setupBossCallbacks\<close>, applied to the events fired.\<close>

fun bossCallback :: "call list \<times> GameEngine \<Rightarrow> wave_event \<Rightarrow> call list \<times> GameEngine" where
  "bossCallback (cs, e) BossWarning =
     (cs @ handleBossWarning (getCurrentWave (waveManager e)), e)"
| "bossCallback (cs, e) (BossSpawn boss) =
     (cs @ [AddBoss boss] @ handleBossSpawn boss,
      e\<lparr>currentBoss := Some boss, ge_isBossActive := True\<rparr>)"

definition bossCallbacks :: "GameEngine \<Rightarrow> wave_event list \<Rightarrow> call list \<times> GameEngine" where
  "bossCallbacks e evs = foldl bossCallback ([], e) evs"

text \<open>\<^verbatim>\<open>this.waveManager.update(deltaTime)\<close> with the callbacks it fires.\<close>

definition stepWaveManager :: "GameEngine \<Rightarrow> real \<Rightarrow> call list \<times> GameEngine" where
  "stepWaveManager e dt =
     (case WaveManager_update (waveManager e) dt of
        (evs, wm) \<Rightarrow> bossCallbacks (e\<lparr>waveManager := wm\<rparr>) evs)"

definition GameEngine_saveCurrentSessionStats :: "GameEngine \<Rightarrow> real \<Rightarrow> call list \<times> GameEngine" where
  "GameEngine_saveCurrentSessionStats e now = ([SaveSessionSnapshot], e\<lparr>ge_lastStatsSaveTime := now\<rparr>)"

definition GameEngine_handlePlayerDeath :: "GameEngine \<Rightarrow> FrameEnv \<Rightarrow> call list \<times> GameEngine" where
  "GameEngine_handlePlayerDeath e env =
     (handlePlayerDeath (gameStateManager e) (store e) (env_muted env) (env_now env),
      e\<lparr>pendingEnd := pendingEnd e @ [env_now env + 50]\<rparr>)"

definition handleBossDefeated :: "GameEngine \<Rightarrow> FrameEnv \<Rightarrow> call list \<times> GameEngine" where
  "handleBossDefeated e env =
     ([AddBossLoot, AddExperienceOrb, StoreAddCurrency, StoreAddBossKill, StoreOnBossDefeated]
        @ (if \<not> env_muted env then [PlaySuccess] else []),
      e\<lparr>currentBoss := None, ge_isBossActive := False\<rparr>)"

text \<open>
  The first part of \<^verbatim>\<open>update\<close>, up to \<^verbatim>\<open>this.previousPhase = gameState.phase\<close>:
  pause toggle, pause flags, and the clearing of movement keys on resume.
\<close>

definition pausePrelude :: "GameEngine \<Rightarrow> FrameEnv \<Rightarrow> call list \<times> GameEngine" where
  "pausePrelude e env =
     (let input = getInput (inputManager e) False
      in case handlePauseInput (gameStateManager e) (store e) input (env_now env) of
           (pauseStateChanged, cs, g, st) \<Rightarrow>
             (let isPausedOrLevelUp = (phase st = paused \<or> phase st = levelUp);
                  im1 = setPaused (inputManager e) isPausedOrLevelUp;
                  im2 = (if (previousPhase e = paused \<or> previousPhase e = levelUp)
                            \<and> phase st = playing
                         then clearMovementKeys im1 else im1)
              in (cs, e\<lparr>gameStateManager := g, store := st, ge_isPaused := (phase st = paused),
                        inputManager := im2, previousPhase := phase st\<rparr>)))"

text \<open>The phase that the frame works with: the store's phase after the pause toggle.\<close>

definition phaseSeen :: "GameEngine \<Rightarrow> FrameEnv \<Rightarrow> GamePhase" where
  "phaseSeen e env = phase (store (snd (pausePrelude e env)))"

text \<open>The rest of \<^verbatim>\<open>update\<close> in the playing branch, after the death check.\<close>

definition playingFrame :: "GameEngine \<Rightarrow> FrameEnv \<Rightarrow> real \<Rightarrow> call list \<times> GameEngine" where
  "playingFrame e env dt =
     (let playerInput = getInput (inputManager e) (ge_isPaused e);
          cs1 = [PlayerUpdate dt playerInput, CameraUpdate dt]
      in case stepWaveManager e dt of
        (cs2, e2) \<Rightarrow>
          (case spawnEnemies (waveManager e2) (env_canvasWidth env) (env_canvasHeight env)
                  (env_enemyCount env) (Some (env_playerPos env)) (env_rand1 env) (env_rand2 env) of
             (newEnemies, evs, wm) \<Rightarrow>
               (case bossCallbacks (e2\<lparr>waveManager := wm\<rparr>) evs of
                  (cs3, e3) \<Rightarrow>
                    (let st4 = setWave (store e3) (getCurrentWave (waveManager e3));
                         cs4 = [AddEnemies newEnemies, FireWeapon dt, AddProjectiles,
                                EntityManagerUpdate dt (env_playerPos env), HandleAllCollisions];
                         st5 = env_collisions env st4
                     in case GameStateManager_update (gameStateManager e3) st5 dt (env_now env) of
                          (cs5, g) \<Rightarrow>
                            (let e5 = e3\<lparr>store := st5, gameStateManager := g\<rparr>;
                                 cs = cs1 @ cs2 @ cs3 @ cs4 @ cs5
                             in if currentBoss e5 \<noteq> None \<and> \<not> env_bossAlive env \<and> ge_isBossActive e5
                                then (case handleBossDefeated e5 env of
                                        (cs6, e6) \<Rightarrow> (cs @ cs6, e6))
                                else (cs, e5))))))"

definition GameEngine_update :: "GameEngine \<Rightarrow> FrameEnv \<Rightarrow> real \<Rightarrow> call list \<times> GameEngine" where
  "GameEngine_update e0 env dt =
     (case pausePrelude e0 env of
        (cs0, e) \<Rightarrow>
          if ge_isPaused e then
            (cs0 @ [PlayerUpdate dt emptyInput, EntityManagerUpdate dt (env_playerPos env),
                    FireWeapon dt, AddProjectiles], e)
          else if phase (store e) = gameOver then
            (case stepWaveManager e dt of
               (cs1, e1) \<Rightarrow> (cs0 @ [EntityManagerUpdate dt (env_playerPos env)] @ cs1, e1))
          else if phase (store e) = levelUp then
            (case stepWaveManager e dt of
               (cs1, e1) \<Rightarrow>
                 (cs0 @ [PlayerUpdate dt emptyInput, EntityManagerUpdate dt (env_playerPos env)]
                    @ cs1, e1))
          else
            (case (if env_now env - ge_lastStatsSaveTime e \<ge> STATS_SAVE_INTERVAL
                   then GameEngine_saveCurrentSessionStats e (env_now env) else ([], e)) of
               (cs1, e1) \<Rightarrow>
                 if checkPlayerDeath (store e1) then
                   (case GameEngine_handlePlayerDeath e1 env of
                      (cs2, e2) \<Rightarrow> (cs0 @ cs1 @ cs2, e2))
                 else
                   (case playingFrame e1 env dt of
                      (cs2, e2) \<Rightarrow> (cs0 @ cs1 @ cs2, e2))))"

section \<open>The host: key events, timers and frames\<close>

text \<open>
  Timers whose due time has passed run before the frame: each calls the store's
  \<^verbatim>\<open>end()\<close>.
\<close>

definition fireTimers :: "GameEngine \<Rightarrow> real \<Rightarrow> GameEngine" where
  "fireTimers e now =
     (if filter (\<lambda>t. t \<le> now) (pendingEnd e) \<noteq> []
      then e\<lparr>store := gs_end (store e), pendingEnd := filter (\<lambda>t. now < t) (pendingEnd e)\<rparr>
      else e)"

datatype host_event = KeyDown string | KeyUp string | Frame FrameEnv real

fun dispatch :: "GameEngine \<Rightarrow> host_event \<Rightarrow> call list \<times> GameEngine" where
  "dispatch e (KeyDown code) =
     ([], if listenersAttached (inputManager e)
          then e\<lparr>inputManager := handleKeyDown (inputManager e) code\<rparr> else e)"
| "dispatch e (KeyUp code) =
     ([], if listenersAttached (inputManager e)
          then e\<lparr>inputManager := handleKeyUp (inputManager e) code\<rparr> else e)"
| "dispatch e (Frame env dt) = GameEngine_update (fireTimers e (env_now env)) env dt"

fun run :: "GameEngine \<Rightarrow> host_event list \<Rightarrow> call list \<times> GameEngine" where
  "run e [] = ([], e)"
| "run e (ev # evs) =
     (case dispatch e ev of (cs, e1) \<Rightarrow> (case run e1 evs of (cs', e2) \<Rightarrow> (cs @ cs', e2)))"

fun isRecordRun :: "call \<Rightarrow> bool" where
  "isRecordRun (RecordRun s t) = True"
| "isRecordRun c = False"

fun isRecordRunEnd :: "call \<Rightarrow> bool" where
  "isRecordRunEnd (RecordRunEnd s t) = True"
| "isRecordRunEnd c = False"

fun isAddCurrency :: "call \<Rightarrow> bool" where
  "isAddCurrency (AddCurrency n) = True"
| "isAddCurrency c = False"

fun playerInputs :: "call list \<Rightarrow> InputState list" where
  "playerInputs [] = []"
| "playerInputs (PlayerUpdate dt i # cs) = i # playerInputs cs"
| "playerInputs (c # cs) = playerInputs cs"

section \<open>Sessions of the wave director\<close>

text \<open>A session is a sequence of calls made to the wave director by its owner.\<close>

datatype wm_call =
    CallUpdate real
  | CallSpawn real real nat "(real \<times> real) option" real real
  | CallBossDefeated

fun elapsed :: "wm_call \<Rightarrow> real" where
  "elapsed (CallUpdate dt) = dt"
| "elapsed (CallSpawn cw ch n pp r1 r2) = 0"
| "elapsed CallBossDefeated = 0"

fun wmStep :: "WaveManager \<Rightarrow> wm_call \<Rightarrow> Enemy list \<times> WaveManager" where
  "wmStep s (CallUpdate dt) = ([], snd (WaveManager_update s dt))"
| "wmStep s (CallSpawn cw ch n pp r1 r2) =
     (case spawnEnemies s cw ch n pp r1 r2 of (es, evs, s1) \<Rightarrow> (es, s1))"
| "wmStep s CallBossDefeated = ([], onBossDefeated s)"

fun wmRun :: "WaveManager \<Rightarrow> wm_call list \<Rightarrow> Enemy list \<times> WaveManager" where
  "wmRun s [] = ([], s)"
| "wmRun s (c # cs) =
     (case wmStep s c of (es, s1) \<Rightarrow> (case wmRun s1 cs of (es', s2) \<Rightarrow> (es @ es', s2)))"

text \<open>
  The states the director can be in: every public operation may be called at any time
  with any arguments.
\<close>

inductive reachable :: "WaveManager \<Rightarrow> bool" where
  r_new: "reachable newWaveManager"
| r_update: "reachable s \<Longrightarrow> reachable (snd (WaveManager_update s dt))"
| r_spawn: "reachable s \<Longrightarrow> reachable (snd (snd (spawnEnemies s cw ch n pp r1 r2)))"
| r_defeated: "reachable s \<Longrightarrow> reachable (onBossDefeated s)"
| r_reset: "reachable s \<Longrightarrow> reachable (WaveManager_reset s)"
| r_warning: "reachable s \<Longrightarrow> reachable (setOnBossWarning s)"
| r_spawncb: "reachable s \<Longrightarrow> reachable (setOnBossSpawn s)"


section \<open>States used as examples\<close>

text \<open>
  The director at the start of wave 5 when the boss is due: four advances from the
  initial state give a cap of 45 and an interval of \<open>2 * 0.97 ^ 4\<close>.
\<close>

definition wave5 :: WaveManager where
  "wave5 = \<lparr> currentWave = 5, spawnTimer = 5, spawnInterval = 1.77058562, waveStartTime = 5,
     maxActiveEnemies = 45, bossSpawned = False, bossDefeated = False,
     bossWarningTriggered = True, timeUntilBoss = 0,
     onBossWarning = True, onBossSpawn = True \<rparr>"

text \<open>The director two seconds into wave 1, with a given population cap.\<close>

definition wave1 :: "nat \<Rightarrow> WaveManager" where
  "wave1 cap = \<lparr> currentWave = 1, spawnTimer = 2, spawnInterval = 2, waveStartTime = 2,
     maxActiveEnemies = cap, bossSpawned = False, bossDefeated = False,
     bossWarningTriggered = False, timeUntilBoss = 0,
     onBossWarning = True, onBossSpawn = True \<rparr>"

text \<open>The director in wave 5, \<open>t\<close> seconds into the wave, with the boss alive.\<close>

definition bossFight :: "real \<Rightarrow> WaveManager" where
  "bossFight t = \<lparr> currentWave = 5, spawnTimer = t, spawnInterval = 1.77058562, waveStartTime = t,
     maxActiveEnemies = 45, bossSpawned = True, bossDefeated = False,
     bossWarningTriggered = True, timeUntilBoss = 0,
     onBossWarning = True, onBossSpawn = True \<rparr>"

text \<open>A boss wave whose boss has spawned and has been reported defeated.\<close>

definition bossCleared :: "WaveManager \<Rightarrow> bool" where
  "bossCleared s = (isBossWave s \<and> bossSpawned s \<and> bossDefeated s)"



text \<open>
  \<open>allPaused e evs\<close>: every frame among the host events \<open>evs\<close>, played from \<open>e\<close>,
  works with the phase \<open>paused\<close>.
\<close>

fun allPaused :: "GameEngine \<Rightarrow> host_event list \<Rightarrow> bool" where
  "allPaused e [] = True"
| "allPaused e (Frame env dt # evs) =
     (phaseSeen (fireTimers e (env_now env)) env = paused
      \<and> allPaused (snd (dispatch e (Frame env dt))) evs)"
| "allPaused e (ev # evs) = allPaused (snd (dispatch e ev)) evs"

text \<open>A frame at wall-clock time \<open>t\<close> in a quiet world.\<close>

definition frameAt :: "real \<Rightarrow> FrameEnv" where
  "frameAt t = \<lparr> env_now = t, env_canvasWidth = 800, env_canvasHeight = 600,
     env_playerPos = (0, 0), env_enemyCount = 0, env_rand1 = 0, env_rand2 = 0,
     env_muted = False, env_bossAlive = True, env_collisions = (\<lambda>st. st) \<rparr>"

text \<open>
  An engine whose previous frame saw the phase \<open>prev\<close>, whose store is in phase
  \<open>ph\<close> with health \<open>hp\<close>, and where the key W is held down.
\<close>

definition inPhase :: "GamePhase \<Rightarrow> GamePhase \<Rightarrow> real \<Rightarrow> GameEngine" where
  "inPhase prev ph hp =
     (newGameEngine 0 \<lparr> phase = ph, health = hp, score = 250, wave = 1 \<rparr>)
       \<lparr> previousPhase := prev, ge_isPaused := (prev = paused),
       inputManager := handleKeyDown (addEventListeners newInputManager) ''KeyW'' \<rparr>"

text \<open>Host events during a pause: keys are pressed and released between two frames.\<close>

definition pausedSession :: "host_event list" where
  "pausedSession = [KeyDown ''KeyD'', Frame (frameAt 1000) 0.016,
                    KeyUp ''KeyW'', KeyDown ''ArrowUp'', Frame (frameAt 1016) 0.016]"

text \<open>The engine in play when Escape has just been pressed.\<close>

definition pausing :: GameEngine where
  "pausing = snd (dispatch (inPhase playing playing 100) (KeyDown ''Escape''))"

text \<open>
  \<open>heldIgnored k m\<close>: the key \<open>k\<close> reads as not pressed and is in the
  ignore-until-release set.
\<close>

definition heldIgnored :: "string \<Rightarrow> InputManager \<Rightarrow> bool" where
  "heldIgnored k m = (\<not> keys m k \<and> k \<in> ignoreUntilRelease m)"

text \<open>The engine after the frame that sees play resumed from the pause menu.\<close>

definition resumed :: GameEngine where
  "resumed = snd (GameEngine_update (inPhase paused playing 100) (frameAt 1000) 0.016)"

text \<open>
  A key pressed during the pause: from a paused engine, one paused frame, then D is
  pressed, then Escape. \<open>afterResume\<close> is the engine after the next frame, which
  resumes play, and \<open>autoRepeat\<close> the engine when the key D, never released, has sent
  its next key-down event and the following frame begins.
\<close>

definition pressedInPause :: GameEngine where
  "pressedInPause = snd (run (inPhase paused paused 100)
      [Frame (frameAt 1000) 0.016, KeyDown ''KeyD'', KeyDown ''Escape''])"

definition afterResume :: GameEngine where
  "afterResume = snd (GameEngine_update pressedInPause (frameAt 1016) 0.016)"

definition autoRepeat :: GameEngine where
  "autoRepeat = fireTimers (snd (dispatch afterResume (KeyDown ''KeyD''))) (env_now (frameAt 1033))"

section \<open>Frame scheduler: the elapsed time passed to the callbacks\<close>

lemma deltaTime_upper: "deltaTime c t \<le> 0.02"
  by (simp add: deltaTime_def)

lemma deltaTime_lower: "lastTime c \<le> t \<Longrightarrow> 0 \<le> deltaTime c t"
  by (simp add: deltaTime_def)

text \<open>
  C1, as stated: the elapsed time passed to both callbacks is
  \<open>clamp ((currentTime - lastTime) / 1000) 0 0.02\<close>, so it is never negative. The
  code takes a minimum only: with \<open>lastTime = 1000\<close> and \<open>currentTime = 0\<close> both
  callbacks receive \<open>-1\<close>, where the clamp gives \<open>0\<close>.
\<close>

theorem gameLoop_deltaTime_counterexample:
  "fst (gameLoop \<lparr>animationFrameId = Some 1, lastTime = 1000\<rparr> 0 2)
     = [UpdateCallback (- 1), RenderCallback (- 1)]
   \<and> clamp ((0 - 1000) / 1000) 0 0.02 = 0
   \<and> \<not> (0 \<le> deltaTime \<lparr>animationFrameId = Some 1, lastTime = 1000\<rparr> 0)"
  by (simp add: gameLoop_def deltaTime_def clamp_def Let_def)

text \<open>
  C1, amended: in every frame both callbacks receive
  \<open>min ((currentTime - lastTime) / 1000) 0.02\<close>; this is at most \<open>0.02\<close> for every
  pair of timestamps, and whenever the clock has not gone backwards
  (\<open>lastTime \<le> currentTime\<close>) it is non-negative and equal to the clamp.
\<close>

theorem gameLoop_deltaTime:
  "fst (gameLoop c currentTime rid)
     = [UpdateCallback (min ((currentTime - lastTime c) / 1000) 0.02),
        RenderCallback (min ((currentTime - lastTime c) / 1000) 0.02)]
   \<and> deltaTime c currentTime \<le> 0.02
   \<and> (lastTime c \<le> currentTime \<longrightarrow>
        0 \<le> deltaTime c currentTime
        \<and> deltaTime c currentTime = clamp ((currentTime - lastTime c) / 1000) 0 0.02)"
  by (simp add: gameLoop_def deltaTime_def clamp_def Let_def max_def min_def)

theorem gameLoop_deltaTime_witness:
  "fst (gameLoop \<lparr>animationFrameId = Some 1, lastTime = 1000\<rparr> 600000 2)
     = [UpdateCallback 0.02, RenderCallback 0.02]
   \<and> (1000::real) \<le> 600000
   \<and> deltaTime \<lparr>animationFrameId = Some 1, lastTime = 1000\<rparr> 600000 = 0.02
   \<and> clamp ((600000 - 1000) / 1000) 0 0.02 = 0.02"
  using gameLoop_deltaTime [of "\<lparr>animationFrameId = Some 1, lastTime = 1000\<rparr>" 600000 2]
  by (simp add: clamp_def)

section \<open>Wave director: arithmetic of wave numbers\<close>

lemma js_rem_zero_iff: "js_rem a 5 = 0 \<longleftrightarrow> a mod 5 = 0"
proof (cases "0 \<le> a")
  case True
  then show ?thesis by (auto simp: js_rem_def sgn_if)
next
  case False
  then have "(- a) mod 5 = 0 \<longleftrightarrow> a mod 5 = 0" by presburger
  with False show ?thesis by (auto simp: js_rem_def sgn_if)
qed

lemma isBossWave_iff: "isBossWave s \<longleftrightarrow> currentWave s mod 5 = 0"
  by (simp add: isBossWave_def bossSpawnInterval_def js_rem_zero_iff)

lemma floor_wave: "\<lfloor>real_of_int w / 5 - 1\<rfloor> = w div 5 - 1"
proof -
  have "\<lfloor>real_of_int w / real_of_int 5\<rfloor> = w div 5" by (rule floor_divide_of_int_eq)
  then show ?thesis by simp
qed

lemma js_rem_nonneg: "0 \<le> a \<Longrightarrow> js_rem a 3 = a mod 3"
  by (auto simp: js_rem_def sgn_if)

lemma bossIndex_eq: "5 \<le> w \<Longrightarrow> bossIndex w = (w div 5 - 1) mod 3"
proof -
  assume "5 \<le> w"
  then have nn: "0 \<le> w div 5 - 1" by presburger
  have "bossIndex w = js_rem (w div 5 - 1) 3"
    unfolding bossIndex_def bossSpawnInterval_def bossTypes_def using floor_wave [of w] by simp
  with nn show ?thesis by (simp only: js_rem_nonneg)
qed


section \<open>Wave director: advancing the wave\<close>

lemma reachable_bounds: "reachable s \<Longrightarrow> 1 \<le> spawnInterval s \<and> maxActiveEnemies s \<le> maxEnemiesCap"
proof (induction rule: reachable.induct)
  case r_new
  show ?case by (simp add: newWaveManager_def maxEnemiesCap_def)
next
  case (r_update s dt)
  then show ?case by (simp add: WaveManager_update_def Let_def)
next
  case (r_spawn s cw ch n pp r1 r2)
  then show ?case
    by (simp add: spawnEnemies_def bossPhase_def advanceWave_def Let_def split: prod.splits)
next
  case (r_defeated s)
  then show ?case by (simp add: onBossDefeated_def)
next
  case (r_reset s)
  show ?case by (simp add: WaveManager_reset_def maxEnemiesCap_def)
next
  case (r_warning s)
  then show ?case by (simp add: setOnBossWarning_def)
next
  case (r_spawncb s)
  then show ?case by (simp add: setOnBossSpawn_def)
qed

lemma wmStep_wave: "currentWave (snd (wmStep s c)) = currentWave s \<or> currentWave (snd (wmStep s c)) = currentWave s + 1"
proof (cases c)
  case (CallUpdate dt)
  then show ?thesis by (simp add: WaveManager_update_def Let_def)
next
  case (CallSpawn cw ch n pp r1 r2)
  then show ?thesis
    by (simp add: spawnEnemies_def bossPhase_def advanceWave_def Let_def split: prod.splits)
next
  case CallBossDefeated
  then show ?thesis by (simp add: onBossDefeated_def)
qed

lemma wmRun_Cons_snd: "snd (wmRun s (c # cs)) = snd (wmRun (snd (wmStep s c)) cs)"
  by (simp add: case_prod_beta)

lemma wmRun_Cons_fst: "fst (wmRun s (c # cs)) = fst (wmStep s c) @ fst (wmRun (snd (wmStep s c)) cs)"
  by (simp add: case_prod_beta)

lemma wmRun_wave: "currentWave s \<le> currentWave (snd (wmRun s cs))"
proof (induction cs arbitrary: s)
  case Nil
  show ?case by simp
next
  case (Cons c cs)
  have "currentWave s \<le> currentWave (snd (wmStep s c))"
    using wmStep_wave [of s c] by auto
  also have "\<dots> \<le> currentWave (snd (wmRun (snd (wmStep s c)) cs))" by (rule Cons.IH)
  finally show ?case by (simp only: wmRun_Cons_snd)
qed

text \<open>
  C9: in every reachable state of the director, an advance adds exactly 1 to the wave
  number, resets the time elapsed in the wave, sets the spawn interval to
  \<open>max 1 (0.97 * spawnInterval)\<close>, which does not exceed the old interval and is at
  least 1, and sets the population cap to \<open>min 80 (maxActiveEnemies + 5)\<close>, which is
  not below the old cap and at most 80. Every call to the director leaves the wave
  number unchanged or advances it by one, so over any sequence of calls the wave number
  does not decrease.
\<close>

theorem advanceWave_monotone:
  assumes "reachable s"
  shows "currentWave (advanceWave s) = currentWave s + 1
       \<and> waveStartTime (advanceWave s) = 0
       \<and> spawnInterval (advanceWave s) = max 1 (0.97 * spawnInterval s)
       \<and> 1 \<le> spawnInterval (advanceWave s)
       \<and> spawnInterval (advanceWave s) \<le> spawnInterval s
       \<and> maxActiveEnemies (advanceWave s) = min 80 (maxActiveEnemies s + 5)
       \<and> maxActiveEnemies s \<le> maxActiveEnemies (advanceWave s)
       \<and> maxActiveEnemies (advanceWave s) \<le> 80
       \<and> (currentWave (snd (wmStep s c)) = currentWave s
            \<or> currentWave (snd (wmStep s c)) = currentWave (advanceWave s))
       \<and> currentWave s \<le> currentWave (snd (wmRun s cs))"
proof -
  from assms have b: "1 \<le> spawnInterval s" "maxActiveEnemies s \<le> 80"
    using reachable_bounds [of s] by (simp_all add: maxEnemiesCap_def)
  have w: "currentWave (advanceWave s) = currentWave s + 1" by (simp add: advanceWave_def)
  from b have "spawnInterval (advanceWave s) \<le> spawnInterval s"
    by (simp add: advanceWave_def)
  moreover from b have "maxActiveEnemies s \<le> maxActiveEnemies (advanceWave s)"
    by (simp add: advanceWave_def maxEnemiesCap_def)
  moreover have "spawnInterval (advanceWave s) = max 1 (0.97 * spawnInterval s)"
    by (simp add: advanceWave_def mult.commute)
  moreover have "maxActiveEnemies (advanceWave s) = min 80 (maxActiveEnemies s + 5)"
    by (simp add: advanceWave_def maxEnemiesCap_def)
  moreover have "1 \<le> spawnInterval (advanceWave s)" "maxActiveEnemies (advanceWave s) \<le> 80"
    "waveStartTime (advanceWave s) = 0"
    by (simp_all add: advanceWave_def maxEnemiesCap_def)
  ultimately show ?thesis
    using w wmStep_wave [of s c] wmRun_wave [of s cs] by simp
qed

theorem advanceWave_monotone_witness:
  "reachable newWaveManager
   \<and> currentWave (advanceWave newWaveManager) = 2
   \<and> spawnInterval (advanceWave newWaveManager) = 1.94
   \<and> maxActiveEnemies (advanceWave newWaveManager) = 30
   \<and> currentWave newWaveManager \<le> currentWave (snd (wmRun newWaveManager [CallUpdate 30, CallSpawn 800 600 0 None 0 0]))"
  using advanceWave_monotone [OF r_new, of "CallUpdate 30" "[CallUpdate 30, CallSpawn 800 600 0 None 0 0]"] r_new
  by (simp add: advanceWave_def newWaveManager_def)

section \<open>Wave director: spawning the boss\<close>

lemma bossTypeAt_index: "5 \<le> w \<Longrightarrow> bossTypeAt (bossIndex w) = Some (bossTypes ! nat ((w div 5 - 1) mod 3))"
  by (simp add: bossIndex_eq bossTypeAt_def bossTypes_def)

lemma boss_wave_ge5: "isBossWave s \<Longrightarrow> 1 \<le> currentWave s \<Longrightarrow> 5 \<le> currentWave s"
  unfolding isBossWave_iff by presburger

text \<open>
  C5: on a boss wave (wave numbers start at 1) where no boss has spawned yet and the time
  elapsed in the wave has reached the spawn delay, \<^verbatim>\<open>spawnEnemies\<close> returns exactly one
  entity, a boss created for the current wave whose type is
  \<open>bossTypes[(waveNumber div bossSpawnInterval - 1) mod 3]\<close>, a function of the wave
  number alone; the spawn callback, if registered, receives that boss; and the boss is
  marked as spawned and active (provided no defeat was reported before it spawned). For
  wave 5 the type is \<open>bossTypes[0]\<close>.
\<close>

theorem spawnEnemies_boss:
  assumes "isBossWave s" and "1 \<le> currentWave s" and "\<not> bossSpawned s"
    and "bossWarningTime \<le> waveStartTime s"
  shows "(\<exists>x y. fst (spawnEnemies s cw ch n pp r1 r2)
             = [BossEnemy x y (Some (bossTypes ! nat ((currentWave s div bossSpawnInterval - 1)
                                       mod int (length bossTypes)))) (currentWave s)]
           \<and> fst (snd (spawnEnemies s cw ch n pp r1 r2))
               = (if onBossSpawn s
                  then [BossSpawn (BossEnemy x y (Some (bossTypes ! nat ((currentWave s div bossSpawnInterval - 1)
                                       mod int (length bossTypes)))) (currentWave s))]
                  else []))
       \<and> (\<not> bossDefeated s \<longrightarrow> bossSpawned (snd (snd (spawnEnemies s cw ch n pp r1 r2)))
             \<and> isBossActive (snd (snd (spawnEnemies s cw ch n pp r1 r2))))
       \<and> (currentWave s = 5 \<longrightarrow> bossTypeAt (bossIndex (currentWave s)) = Some (bossTypes ! 0))"
proof -
  from assms have w5: "5 \<le> currentWave s" by (simp add: boss_wave_ge5)
  have len: "int (length bossTypes) = 3" by (simp add: bossTypes_def)
  have bt: "bossTypeAt (bossIndex (currentWave s))
              = Some (bossTypes ! nat ((currentWave s div 5 - 1) mod 3))"
    using w5 by (rule bossTypeAt_index)
  obtain x y where xy: "spawnPoint 200 400 cw ch pp r1 r2 = (x, y)" by (cases "spawnPoint 200 400 cw ch pp r1 r2")
  have boss: "spawnBoss s cw ch pp r1 r2
                = BossEnemy x y (Some (bossTypes ! nat ((currentWave s div 5 - 1) mod 3))) (currentWave s)"
    by (simp add: spawnBoss_def bt xy)
  have bp: "bossPhase s cw ch pp r1 r2
              = ([spawnBoss s cw ch pp r1 r2],
                 if onBossSpawn s then [BossSpawn (spawnBoss s cw ch pp r1 r2)] else [],
                 s\<lparr>bossSpawned := True\<rparr>)"
    using assms by (simp add: bossPhase_def Let_def)
  have f: "fst (spawnEnemies s cw ch n pp r1 r2) = [spawnBoss s cw ch pp r1 r2]"
    using assms(1) by (simp add: spawnEnemies_def bp)
  have g: "fst (snd (spawnEnemies s cw ch n pp r1 r2))
             = (if onBossSpawn s then [BossSpawn (spawnBoss s cw ch pp r1 r2)] else [])"
    using assms(1) by (simp add: spawnEnemies_def bp)
  have h: "\<not> bossDefeated s \<Longrightarrow> snd (snd (spawnEnemies s cw ch n pp r1 r2)) = s\<lparr>bossSpawned := True\<rparr>"
    using assms(1) by (simp add: spawnEnemies_def bp)
  have a: "\<not> bossDefeated s \<Longrightarrow> isBossActive (s\<lparr>bossSpawned := True\<rparr>)"
    using assms(1) by (simp add: isBossActive_def isBossWave_def)
  have first: "currentWave s = 5 \<longrightarrow> bossTypeAt (bossIndex (currentWave s)) = Some (bossTypes ! 0)"
    using bt by auto
  show ?thesis
    using f g h a first by (auto simp: boss bossSpawnInterval_def len)
qed

theorem spawnEnemies_boss_witness:
  "isBossWave wave5 \<and> 1 \<le> currentWave wave5 \<and> \<not> bossSpawned wave5
   \<and> bossWarningTime \<le> waveStartTime wave5
   \<and> fst (spawnEnemies wave5 800 600 10 None 0 0) = [BossEnemy 0 (- 200) (Some necromancer) 5]
   \<and> bossSpawned (snd (snd (spawnEnemies wave5 800 600 10 None 0 0)))
   \<and> bossTypeAt (bossIndex 5) = Some necromancer"
proof -
  have h: "isBossWave wave5" "1 \<le> currentWave wave5" "\<not> bossSpawned wave5"
    "bossWarningTime \<le> waveStartTime wave5"
    by (simp_all add: wave5_def isBossWave_def js_rem_def bossSpawnInterval_def bossWarningTime_def)
  have nd: "\<not> bossDefeated wave5" "currentWave wave5 = 5" by (simp_all add: wave5_def)
  have sp: "fst (spawnEnemies wave5 800 600 10 None 0 0) = [BossEnemy 0 (- 200) (Some necromancer) 5]"
    using h(1) bossTypeAt_index [of 5]
    by (simp add: spawnEnemies_def bossPhase_def spawnBoss_def spawnPoint_def wave5_def
        bossWarningTime_def bossTypes_def Let_def)
  from spawnEnemies_boss [OF h, of 800 600 10 None 0 0] nd sp h
  show ?thesis by (simp add: bossTypes_def)
qed


section \<open>Wave director: the population cap\<close>

lemma bossPhase_cases:
  "bossPhase s cw ch pp r1 r2 = (es, evs, s1) \<Longrightarrow>
     (es = [] \<and> s1 = s \<and> \<not> (\<not> bossSpawned s \<and> bossWarningTime \<le> waveStartTime s))
   \<or> (es = [spawnBoss s cw ch pp r1 r2] \<and> s1 = s\<lparr>bossSpawned := True\<rparr>
        \<and> \<not> bossSpawned s \<and> bossWarningTime \<le> waveStartTime s)"
  by (auto simp: bossPhase_def Let_def split: if_splits)

lemma spawnBoss_isBoss: "isBoss (spawnBoss s cw ch pp r1 r2)"
  by (simp add: spawnBoss_def Let_def split: prod.splits)

lemma createRandomEnemy_not_boss: "\<not> isBoss (createRandomEnemy s cw ch pp r1 r2)"
  by (simp add: createRandomEnemy_def Let_def split: prod.splits)

lemma spawnEnemies_boss_wave:
  assumes "isBossWave s" and "spawnEnemies s cw ch n pp r1 r2 = (es, evs, s')"
  shows "length es \<le> 1 \<and> (\<forall>e \<in> set es. isBoss e)
       \<and> (es \<noteq> [] \<longleftrightarrow> \<not> bossSpawned s \<and> bossWarningTime \<le> waveStartTime s)"
proof -
  obtain es1 evs1 s1 where bp: "bossPhase s cw ch pp r1 r2 = (es1, evs1, s1)"
    by (cases "bossPhase s cw ch pp r1 r2") auto
  from assms bp have "es = es1" by (auto simp: spawnEnemies_def split: if_splits)
  with bossPhase_cases [OF bp] show ?thesis by (auto simp: spawnBoss_isBoss)
qed

lemma spawnEnemies_normal_wave:
  assumes "\<not> isBossWave s" and "spawnEnemies s cw ch n pp r1 r2 = (es, evs, s')"
  shows "length es \<le> 1 \<and> (\<forall>e \<in> set es. \<not> isBoss e)
       \<and> (es \<noteq> [] \<longleftrightarrow> spawnInterval s' \<le> spawnTimer s \<and> n < maxActiveEnemies s')
       \<and> (es \<noteq> [] \<longrightarrow> n + length es \<le> maxActiveEnemies s')"
  using assms
  by (auto simp: spawnEnemies_def Let_def advanceWave_def createRandomEnemy_not_boss split: if_splits)

text \<open>
  C3, as stated: no call of \<^verbatim>\<open>spawnEnemies\<close>, for any wave number, pushes the live
  enemy count above \<^verbatim>\<open>maxActiveEnemies\<close>. On wave 5 with the boss due, a cap of 45 and
  45 live enemies, the call returns the boss: 46 entities against a cap of 45.
\<close>

theorem spawnEnemies_cap_counterexample:
  "fst (spawnEnemies wave5 800 600 45 None 0 0) = [BossEnemy 0 (- 200) (Some necromancer) 5]
   \<and> maxActiveEnemies (snd (snd (spawnEnemies wave5 800 600 45 None 0 0))) = 45
   \<and> \<not> (45 + length (fst (spawnEnemies wave5 800 600 45 None 0 0))
          \<le> maxActiveEnemies (snd (snd (spawnEnemies wave5 800 600 45 None 0 0))))"
proof -
  have b: "isBossWave wave5"
    by (simp add: wave5_def isBossWave_def js_rem_def bossSpawnInterval_def)
  have sp: "spawnEnemies wave5 800 600 45 None 0 0
              = ([BossEnemy 0 (- 200) (Some necromancer) 5],
                 [BossSpawn (BossEnemy 0 (- 200) (Some necromancer) 5)],
                 wave5\<lparr>bossSpawned := True\<rparr>)"
    using b bossTypeAt_index [of 5]
    by (simp add: spawnEnemies_def bossPhase_def spawnBoss_def spawnPoint_def wave5_def
        bossWarningTime_def bossTypes_def Let_def)
  show ?thesis by (simp add: sp) (simp add: wave5_def)
qed

text \<open>
  C3, amended: every call returns at most one enemy. If the wave at the time of the call
  is a normal wave, a (regular) enemy is returned exactly when the spawn timer has reached
  the spawn interval and the live count is below the cap, interval and cap being those in
  force after the wave advance that the same call may make; the live count including the new enemy
  then does not exceed the cap. If it is a boss wave, the only entity ever returned is the
  boss, exactly when none has spawned and the spawn delay has elapsed, whatever the live
  count is.
\<close>

theorem spawnEnemies_cap:
  assumes "spawnEnemies s cw ch n pp r1 r2 = (es, evs, s')"
  shows "length es \<le> 1
       \<and> (\<not> isBossWave s \<longrightarrow>
            (\<forall>e \<in> set es. \<not> isBoss e)
          \<and> (es \<noteq> [] \<longleftrightarrow> spawnInterval s' \<le> spawnTimer s \<and> n < maxActiveEnemies s')
          \<and> (es \<noteq> [] \<longrightarrow> n + length es \<le> maxActiveEnemies s'))
       \<and> (isBossWave s \<longrightarrow>
            (\<forall>e \<in> set es. isBoss e)
          \<and> (es \<noteq> [] \<longleftrightarrow> \<not> bossSpawned s \<and> bossWarningTime \<le> waveStartTime s))"
proof (cases "isBossWave s")
  case True
  with spawnEnemies_boss_wave [OF True assms] show ?thesis by simp
next
  case False
  with spawnEnemies_normal_wave [OF False assms] show ?thesis by simp
qed

theorem spawnEnemies_cap_witness:
  "spawnEnemies (wave1 25) 800 600 24 None 0 0
     = ([FactoryEnemy 0 (- 50) 1], [], (wave1 25)\<lparr>spawnTimer := 0\<rparr>)
   \<and> \<not> isBossWave (wave1 25)
   \<and> 24 + length [FactoryEnemy 0 (- 50) 1] \<le> maxActiveEnemies ((wave1 25)\<lparr>spawnTimer := 0\<rparr>)
   \<and> fst (spawnEnemies ((wave1 25)\<lparr>spawnTimer := 2, waveStartTime := 4\<rparr>) 800 600 25 None 0 0) = []"
proof -
  have nb: "\<not> isBossWave (wave1 25)"
    by (simp add: wave1_def isBossWave_def js_rem_def bossSpawnInterval_def)
  have nb2: "\<not> isBossWave ((wave1 25)\<lparr>spawnTimer := 2, waveStartTime := 4\<rparr>)"
    by (simp add: wave1_def isBossWave_def js_rem_def bossSpawnInterval_def)
  have sp: "spawnEnemies (wave1 25) 800 600 24 None 0 0
              = ([FactoryEnemy 0 (- 50) 1], [], (wave1 25)\<lparr>spawnTimer := 0\<rparr>)"
    using nb
    by (simp add: spawnEnemies_def createRandomEnemy_def getSpawnPosition_def spawnPoint_def
        wave1_def waveDuration_def Let_def)
  have sp2: "fst (spawnEnemies ((wave1 25)\<lparr>spawnTimer := 2, waveStartTime := 4\<rparr>) 800 600 25 None 0 0) = []"
    using nb2 by (simp add: spawnEnemies_def wave1_def waveDuration_def Let_def)
  from spawnEnemies_cap [OF sp] nb sp sp2 show ?thesis by simp
qed


section \<open>Wave director: after the boss is defeated\<close>

lemma onBossDefeated_cleared: "isBossActive s \<Longrightarrow> bossCleared (onBossDefeated s)"
  by (simp add: isBossActive_def bossCleared_def onBossDefeated_def isBossWave_def)

lemma cleared_spawn:
  "bossCleared s \<Longrightarrow>
     spawnEnemies s cw ch n pp r1 r2
       = ([], [], if waveDuration \<le> waveStartTime s then advanceWave s else s)"
  by (simp add: bossCleared_def spawnEnemies_def bossPhase_def)

lemma cleared_step:
  assumes "bossCleared s" and "0 \<le> elapsed c" and "waveStartTime s + elapsed c < waveDuration"
  shows "fst (wmStep s c) = [] \<and> bossCleared (snd (wmStep s c))
       \<and> currentWave (snd (wmStep s c)) = currentWave s
       \<and> waveStartTime (snd (wmStep s c)) = waveStartTime s + elapsed c"
proof (cases c)
  case (CallUpdate dt)
  with assms show ?thesis
    by (simp add: bossCleared_def WaveManager_update_def isBossWave_def Let_def)
next
  case (CallSpawn cw ch n pp r1 r2)
  with assms show ?thesis by (simp add: cleared_spawn)
next
  case CallBossDefeated
  with assms show ?thesis by (simp add: bossCleared_def onBossDefeated_def isBossWave_def)
qed

lemma cleared_run:
  "bossCleared s \<Longrightarrow> \<forall>c \<in> set cs. 0 \<le> elapsed c
     \<Longrightarrow> waveStartTime s + sum_list (map elapsed cs) < waveDuration
     \<Longrightarrow> fst (wmRun s cs) = [] \<and> currentWave (snd (wmRun s cs)) = currentWave s
         \<and> bossCleared (snd (wmRun s cs))"
proof (induction cs arbitrary: s)
  case Nil
  then show ?case by simp
next
  case (Cons c cs)
  have nn: "0 \<le> sum_list (map elapsed cs)"
    using Cons.prems(2) by (auto intro!: sum_list_nonneg)
  have c0: "0 \<le> elapsed c" using Cons.prems(2) by simp
  have lt: "waveStartTime s + elapsed c < waveDuration"
    using Cons.prems(3) nn by simp
  note st = cleared_step [OF Cons.prems(1) c0 lt]
  have "fst (wmRun (snd (wmStep s c)) cs) = []
      \<and> currentWave (snd (wmRun (snd (wmStep s c)) cs)) = currentWave (snd (wmStep s c))
      \<and> bossCleared (snd (wmRun (snd (wmStep s c)) cs))"
  proof (rule Cons.IH)
    show "bossCleared (snd (wmStep s c))" using st by simp
    show "\<forall>c \<in> set cs. 0 \<le> elapsed c" using Cons.prems(2) by simp
    show "waveStartTime (snd (wmStep s c)) + sum_list (map elapsed cs) < waveDuration"
      using st Cons.prems(3) by (simp add: add.assoc)
  qed
  with st show ?case by (simp only: wmRun_Cons_fst wmRun_Cons_snd) simp
qed

text \<open>
  C4: when \<^verbatim>\<open>onBossDefeated()\<close> is called while a boss is active, the wave number and
  the time elapsed in the wave are unchanged by the call. Over any following sequence of
  calls to the director whose elapsed times are non-negative and sum to less than what
  remains of \<^verbatim>\<open>waveDuration\<close>, nothing is spawned and the wave number stays the same.
  A call of \<^verbatim>\<open>spawnEnemies\<close> after the defeat returns nothing, and advances to the next
  wave exactly if the elapsed time has reached \<^verbatim>\<open>waveDuration\<close>.
\<close>

theorem boss_defeated_waits:
  assumes "isBossActive s"
  shows "currentWave (onBossDefeated s) = currentWave s
       \<and> waveStartTime (onBossDefeated s) = waveStartTime s
       \<and> ((\<forall>c \<in> set cs. 0 \<le> elapsed c)
            \<and> waveStartTime s + sum_list (map elapsed cs) < waveDuration
          \<longrightarrow> fst (wmRun (onBossDefeated s) cs) = []
            \<and> currentWave (snd (wmRun (onBossDefeated s) cs)) = currentWave s)
       \<and> spawnEnemies (onBossDefeated s) cw ch n pp r1 r2
           = ([], [], if waveDuration \<le> waveStartTime s
                      then advanceWave (onBossDefeated s) else onBossDefeated s)
       \<and> (waveDuration \<le> waveStartTime s \<longrightarrow>
            currentWave (snd (snd (spawnEnemies (onBossDefeated s) cw ch n pp r1 r2)))
              = currentWave s + 1)"
proof -
  have cl: "bossCleared (onBossDefeated s)" using assms by (rule onBossDefeated_cleared)
  have eq: "currentWave (onBossDefeated s) = currentWave s"
    "waveStartTime (onBossDefeated s) = waveStartTime s"
    by (simp_all add: onBossDefeated_def)
  have run: "(\<forall>c \<in> set cs. 0 \<le> elapsed c)
            \<and> waveStartTime s + sum_list (map elapsed cs) < waveDuration
          \<longrightarrow> fst (wmRun (onBossDefeated s) cs) = []
            \<and> currentWave (snd (wmRun (onBossDefeated s) cs)) = currentWave s"
    using cleared_run [OF cl, of cs] eq by simp
  have sp: "spawnEnemies (onBossDefeated s) cw ch n pp r1 r2
           = ([], [], if waveDuration \<le> waveStartTime s
                      then advanceWave (onBossDefeated s) else onBossDefeated s)"
    using cleared_spawn [OF cl, of cw ch n pp r1 r2] eq by simp
  have adv: "waveDuration \<le> waveStartTime s \<longrightarrow>
            currentWave (snd (snd (spawnEnemies (onBossDefeated s) cw ch n pp r1 r2)))
              = currentWave s + 1"
  proof
    assume "waveDuration \<le> waveStartTime s"
    with sp have "snd (snd (spawnEnemies (onBossDefeated s) cw ch n pp r1 r2))
                    = advanceWave (onBossDefeated s)" by simp
    moreover have "currentWave (advanceWave (onBossDefeated s)) = currentWave s + 1"
      by (simp add: advanceWave_def onBossDefeated_def)
    ultimately show "currentWave (snd (snd (spawnEnemies (onBossDefeated s) cw ch n pp r1 r2)))
              = currentWave s + 1" by simp
  qed
  from eq run sp adv show ?thesis by blast
qed

theorem boss_defeated_waits_witness:
  "isBossActive (bossFight 20)
   \<and> list_all (\<lambda>c. 0 \<le> elapsed c)
         [CallUpdate 4, CallSpawn 800 600 3 None 0 0, CallUpdate 5, CallSpawn 800 600 3 None 0 0]
   \<and> waveStartTime (bossFight 20)
       + sum_list (map elapsed [CallUpdate 4, CallSpawn 800 600 3 None 0 0, CallUpdate 5,
                                CallSpawn 800 600 3 None 0 0]) < waveDuration
   \<and> fst (wmRun (onBossDefeated (bossFight 20))
        [CallUpdate 4, CallSpawn 800 600 3 None 0 0, CallUpdate 5, CallSpawn 800 600 3 None 0 0]) = []
   \<and> currentWave (snd (wmRun (onBossDefeated (bossFight 20))
        [CallUpdate 4, CallSpawn 800 600 3 None 0 0, CallUpdate 5, CallSpawn 800 600 3 None 0 0])) = 5
   \<and> isBossActive (bossFight 30) \<and> waveDuration \<le> waveStartTime (bossFight 30)
   \<and> currentWave (snd (snd (spawnEnemies (onBossDefeated (bossFight 30)) 800 600 3 None 0 0))) = 6"
proof -
  define cs where "cs = [CallUpdate 4, CallSpawn 800 600 3 None 0 0, CallUpdate 5,
                         CallSpawn 800 600 3 None 0 0]"
  have a1: "isBossActive (bossFight 20)" and a2: "isBossActive (bossFight 30)"
    by (simp_all add: bossFight_def isBossActive_def isBossWave_def js_rem_def bossSpawnInterval_def)
  have h1: "\<forall>c \<in> set cs. 0 \<le> elapsed c" by (simp add: cs_def)
  have h2: "waveStartTime (bossFight 20) + sum_list (map elapsed cs) < waveDuration"
    by (simp add: cs_def bossFight_def waveDuration_def)
  have h3: "waveDuration \<le> waveStartTime (bossFight 30)"
    by (simp add: bossFight_def waveDuration_def)
  have w: "currentWave (bossFight 20) = 5" "currentWave (bossFight 30) + 1 = 6"
    by (simp_all add: bossFight_def)
  from boss_defeated_waits [OF a1, of cs 800 600 3 None 0 0] h1 h2
  have r: "fst (wmRun (onBossDefeated (bossFight 20)) cs) = []
         \<and> currentWave (snd (wmRun (onBossDefeated (bossFight 20)) cs)) = currentWave (bossFight 20)"
    by blast
  from boss_defeated_waits [OF a2, of "[]" 800 600 3 None 0 0] h3
  have q: "currentWave (snd (snd (spawnEnemies (onBossDefeated (bossFight 30)) 800 600 3 None 0 0)))
             = currentWave (bossFight 30) + 1"
    by blast
  have h1': "list_all (\<lambda>c. 0 \<le> elapsed c) cs" by (simp add: cs_def)
  from a1 a2 h1' h2 h3 r q show ?thesis
    unfolding cs_def w by blast
qed

section \<open>Wave director: the boss flags\<close>

lemma isBossWave_cong: "currentWave s' = currentWave s \<Longrightarrow> isBossWave s' = isBossWave s"
  by (simp add: isBossWave_def)













section \<open>Orchestrator: frames while paused\<close>

lemma playerInputs_append: "playerInputs (xs @ ys) = playerInputs xs @ playerInputs ys"
proof (induction xs)
  case Nil
  show ?case by simp
next
  case (Cons c xs)
  then show ?case by (cases c) simp_all
qed

lemma saveStats_calls:
  "fst (saveCurrentSessionStats g st now) = [] \<or> fst (saveCurrentSessionStats g st now) = [SaveSessionSnapshot]"
  by (simp add: saveCurrentSessionStats_def)

lemma handlePauseInput_calls:
  "fst (snd (handlePauseInput g st i now)) = [] \<or> fst (snd (handlePauseInput g st i now)) = [SaveSessionSnapshot]"
  using saveStats_calls [of g st now]
  by (auto simp: handlePauseInput_def split: prod.splits)

lemma pausePrelude_calls:
  "fst (pausePrelude e env) = [] \<or> fst (pausePrelude e env) = [SaveSessionSnapshot]"
  using handlePauseInput_calls [of "gameStateManager e" "store e" "getInput (inputManager e) False" "env_now env"]
  by (auto simp: pausePrelude_def Let_def split: prod.splits)

lemma pausePrelude_fields:
  "waveManager (snd (pausePrelude e env)) = waveManager e
   \<and> ge_isPaused (snd (pausePrelude e env)) = (phaseSeen e env = paused)
   \<and> previousPhase (snd (pausePrelude e env)) = phaseSeen e env
   \<and> phase (store (snd (pausePrelude e env))) = phaseSeen e env
   \<and> pendingEnd (snd (pausePrelude e env)) = pendingEnd e"
  by (simp add: phaseSeen_def pausePrelude_def Let_def split: prod.splits)

lemma update_paused:
  assumes "phaseSeen e env = paused"
  shows "GameEngine_update e env dt
           = (fst (pausePrelude e env)
                @ [PlayerUpdate dt emptyInput, EntityManagerUpdate dt (env_playerPos env),
                   FireWeapon dt, AddProjectiles],
              snd (pausePrelude e env))"
  using assms pausePrelude_fields [of e env]
  by (simp add: GameEngine_update_def case_prod_beta)

lemma fireTimers_waveManager: "waveManager (fireTimers e now) = waveManager e"
  by (simp add: fireTimers_def)

lemma paused_frame:
  assumes "phaseSeen (fireTimers e (env_now env)) env = paused"
  shows "waveManager (snd (dispatch e (Frame env dt))) = waveManager e
       \<and> playerInputs (fst (dispatch e (Frame env dt))) = [emptyInput]"
proof -
  let ?e = "fireTimers e (env_now env)"
  have "playerInputs (fst (pausePrelude ?e env)) = []"
    using pausePrelude_calls [of ?e env] by auto
  then show ?thesis
    using update_paused [OF assms, of dt] pausePrelude_fields [of ?e env]
    by (simp add: playerInputs_append fireTimers_waveManager)
qed

lemma key_event: "ev = KeyDown c \<or> ev = KeyUp c \<Longrightarrow>
  waveManager (snd (dispatch e ev)) = waveManager e \<and> fst (dispatch e ev) = []"
  by auto

lemma run_Cons_snd: "snd (run e (ev # evs)) = snd (run (snd (dispatch e ev)) evs)"
  by (simp add: case_prod_beta)

lemma run_Cons_fst: "fst (run e (ev # evs)) = fst (dispatch e ev) @ fst (run (snd (dispatch e ev)) evs)"
  by (simp add: case_prod_beta)

lemma paused_run:
  "allPaused e evs \<Longrightarrow>
     waveManager (snd (run e evs)) = waveManager e
   \<and> list_all (\<lambda>i. i = emptyInput) (playerInputs (fst (run e evs)))"
proof (induction evs arbitrary: e)
  case Nil
  show ?case by simp
next
  case (Cons ev evs)
  show ?case
  proof (cases ev)
    case (KeyDown c)
    with Cons.prems have "allPaused (snd (dispatch e ev)) evs" by simp
    from Cons.IH [OF this] KeyDown show ?thesis
      by (simp only: run_Cons_snd run_Cons_fst) simp
  next
    case (KeyUp c)
    with Cons.prems have "allPaused (snd (dispatch e ev)) evs" by simp
    from Cons.IH [OF this] KeyUp show ?thesis
      by (simp only: run_Cons_snd run_Cons_fst) simp
  next
    case (Frame env dt)
    with Cons.prems have p: "phaseSeen (fireTimers e (env_now env)) env = paused"
      and r: "allPaused (snd (dispatch e ev)) evs" by simp_all
    from paused_frame [OF p, of dt] Cons.IH [OF r] Frame show ?thesis
      by (simp only: run_Cons_snd run_Cons_fst playerInputs_append) simp
  qed
qed

text \<open>
  C6: \<^verbatim>\<open>getInput(true)\<close> returns the snapshot with every field false, whatever the
  key states are. A frame that works with the phase \<open>paused\<close> leaves the wave director
  as it was, so the time elapsed in the wave is unchanged, and the only input the player
  is updated with is the all-false snapshot. The same holds over any sequence of key
  events and frames in which every frame works with the phase \<open>paused\<close>.
\<close>

theorem paused_freezes:
  "getInput m True = emptyInput
   \<and> \<not> movementRequested (getInput m True)
   \<and> (phaseSeen e env = paused \<longrightarrow>
        waveManager (snd (GameEngine_update e env dt)) = waveManager e
      \<and> waveStartTime (waveManager (snd (GameEngine_update e env dt))) = waveStartTime (waveManager e)
      \<and> playerInputs (fst (GameEngine_update e env dt)) = [emptyInput])
   \<and> (allPaused e evs \<longrightarrow>
        waveManager (snd (run e evs)) = waveManager e
      \<and> list_all (\<lambda>i. i = emptyInput) (playerInputs (fst (run e evs))))"
proof -
  have a: "getInput m True = emptyInput" by (simp add: getInput_def emptyInput_def)
  have b: "\<not> movementRequested (getInput m True)"
    by (simp add: getInput_def movementRequested_def)
  have c: "phaseSeen e env = paused \<longrightarrow>
        waveManager (snd (GameEngine_update e env dt)) = waveManager e
      \<and> waveStartTime (waveManager (snd (GameEngine_update e env dt))) = waveStartTime (waveManager e)
      \<and> playerInputs (fst (GameEngine_update e env dt)) = [emptyInput]"
  proof
    assume p: "phaseSeen e env = paused"
    have "playerInputs (fst (pausePrelude e env)) = []"
      using pausePrelude_calls [of e env] by auto
    then show "waveManager (snd (GameEngine_update e env dt)) = waveManager e
      \<and> waveStartTime (waveManager (snd (GameEngine_update e env dt))) = waveStartTime (waveManager e)
      \<and> playerInputs (fst (GameEngine_update e env dt)) = [emptyInput]"
      using update_paused [OF p, of dt] pausePrelude_fields [of e env]
      by (simp add: playerInputs_append)
  qed
  have d: "allPaused e evs \<longrightarrow>
        waveManager (snd (run e evs)) = waveManager e
      \<and> list_all (\<lambda>i. i = emptyInput) (playerInputs (fst (run e evs)))"
    using paused_run [of e evs] by blast
  from a b c d show ?thesis by blast
qed


lemma inPhase_paused_seen: "phaseSeen (inPhase paused paused 100) (frameAt 1000) = paused"
  by (simp add: phaseSeen_def pausePrelude_def handlePauseInput_def getInput_def inPhase_def
      newGameEngine_def newGameStateManager_def newInputManager_def addEventListeners_def
      handleKeyDown_def frameAt_def setPaused_def Let_def)

lemma pausedSession_allPaused: "allPaused (inPhase paused paused 100) pausedSession"
  by (simp add: pausedSession_def phaseSeen_def pausePrelude_def handlePauseInput_def
      getInput_def inPhase_def newGameEngine_def newGameStateManager_def newInputManager_def
      addEventListeners_def handleKeyDown_def handleKeyUp_def frameAt_def setPaused_def
      fireTimers_def GameEngine_update_def Let_def)

theorem paused_freezes_witness:
  "phaseSeen (inPhase paused paused 100) (frameAt 1000) = paused
   \<and> keys (inputManager (inPhase paused paused 100)) ''KeyW''
   \<and> waveManager (snd (GameEngine_update (inPhase paused paused 100) (frameAt 1000) 0.016))
       = waveManager (inPhase paused paused 100)
   \<and> playerInputs (fst (GameEngine_update (inPhase paused paused 100) (frameAt 1000) 0.016))
       = [emptyInput]
   \<and> allPaused (inPhase paused paused 100) pausedSession
   \<and> waveManager (snd (run (inPhase paused paused 100) pausedSession))
       = waveManager (inPhase paused paused 100)
   \<and> list_all (\<lambda>i. i = emptyInput) (playerInputs (fst (run (inPhase paused paused 100) pausedSession)))"
proof -
  have k: "keys (inputManager (inPhase paused paused 100)) ''KeyW''"
    by (simp add: inPhase_def handleKeyDown_def newInputManager_def addEventListeners_def)
  from paused_freezes [of newInputManager "inPhase paused paused 100" "frameAt 1000" "0.016" pausedSession]
    inPhase_paused_seen pausedSession_allPaused k
  show ?thesis by blast
qed


text \<open>
  C10: a frame that works with the phase \<open>paused\<close> makes, after the calls of the pause
  toggle itself (none, or the session snapshot), exactly these calls and in this order:
  the player is updated with the frame's \<open>deltaTime\<close> and the all-false input, the
  entity registry is updated with \<open>deltaTime\<close>, the weapon is fired with \<open>deltaTime\<close>
  and its projectiles are added to the registry. The wave director is not touched, and
  the input carries neither movement nor weapon triggers.
\<close>

theorem paused_world_keeps_running:
  "phaseSeen e env = paused \<longrightarrow>
     fst (GameEngine_update e env dt)
       = fst (pausePrelude e env)
           @ [PlayerUpdate dt emptyInput, EntityManagerUpdate dt (env_playerPos env),
              FireWeapon dt, AddProjectiles]
   \<and> (fst (pausePrelude e env) = [] \<or> fst (pausePrelude e env) = [SaveSessionSnapshot])
   \<and> waveManager (snd (GameEngine_update e env dt)) = waveManager e
   \<and> \<not> movementRequested emptyInput
   \<and> \<not> (weapon1 emptyInput \<or> weapon2 emptyInput \<or> weapon3 emptyInput
          \<or> weapon4 emptyInput \<or> weapon5 emptyInput)"
proof
  assume p: "phaseSeen e env = paused"
  have "\<not> movementRequested emptyInput"
    "\<not> (weapon1 emptyInput \<or> weapon2 emptyInput \<or> weapon3 emptyInput
          \<or> weapon4 emptyInput \<or> weapon5 emptyInput)"
    by (simp_all add: movementRequested_def emptyInput_def)
  then show "fst (GameEngine_update e env dt)
       = fst (pausePrelude e env)
           @ [PlayerUpdate dt emptyInput, EntityManagerUpdate dt (env_playerPos env),
              FireWeapon dt, AddProjectiles]
   \<and> (fst (pausePrelude e env) = [] \<or> fst (pausePrelude e env) = [SaveSessionSnapshot])
   \<and> waveManager (snd (GameEngine_update e env dt)) = waveManager e
   \<and> \<not> movementRequested emptyInput
   \<and> \<not> (weapon1 emptyInput \<or> weapon2 emptyInput \<or> weapon3 emptyInput
          \<or> weapon4 emptyInput \<or> weapon5 emptyInput)"
    using update_paused [OF p, of dt] pausePrelude_fields [of e env] pausePrelude_calls [of e env]
    by simp
qed

theorem paused_world_keeps_running_witness:
  "phaseSeen pausing (frameAt 1000) = paused
   \<and> fst (GameEngine_update pausing (frameAt 1000) 0.016)
       = [SaveSessionSnapshot, PlayerUpdate 0.016 emptyInput, EntityManagerUpdate 0.016 (0, 0),
          FireWeapon 0.016, AddProjectiles]
   \<and> waveManager (snd (GameEngine_update pausing (frameAt 1000) 0.016)) = waveManager pausing"
proof -
  have p: "phaseSeen pausing (frameAt 1000) = paused"
    by (simp add: pausing_def phaseSeen_def pausePrelude_def handlePauseInput_def getInput_def
        inPhase_def newGameEngine_def newGameStateManager_def newInputManager_def
        addEventListeners_def handleKeyDown_def frameAt_def setPaused_def
        saveCurrentSessionStats_def gs_pause_def Let_def)
  have c: "fst (pausePrelude pausing (frameAt 1000)) = [SaveSessionSnapshot]"
    by (simp add: pausing_def pausePrelude_def handlePauseInput_def getInput_def
        inPhase_def newGameEngine_def newGameStateManager_def newInputManager_def
        addEventListeners_def handleKeyDown_def frameAt_def setPaused_def
        saveCurrentSessionStats_def gs_pause_def Let_def)
  have pos: "env_playerPos (frameAt 1000) = (0, 0)" by (simp add: frameAt_def)
  from paused_world_keeps_running [of pausing "frameAt 1000" "0.016"] p c pos
  show ?thesis by simp
qed

section \<open>Orchestrator: the frame that resumes play\<close>

lemma clearKey_fold_keys: "keys (foldl clearKey m ks) k = (keys m k \<and> k \<notin> set ks)"
proof (induction ks arbitrary: m)
  case Nil
  show ?case by simp
next
  case (Cons a ks)
  have "keys (clearKey m a) k = (keys m k \<and> k \<noteq> a)" by (auto simp: clearKey_def Let_def)
  with Cons.IH [of "clearKey m a"] show ?case by auto
qed

lemma clearKey_fold_ignore:
  "ignoreUntilRelease (foldl clearKey m ks) = ignoreUntilRelease m \<union> {k \<in> set ks. keys m k}"
proof (induction ks arbitrary: m)
  case Nil
  show ?case by simp
next
  case (Cons a ks)
  have k: "\<And>x. keys (clearKey m a) x = (keys m x \<and> x \<noteq> a)" by (auto simp: clearKey_def Let_def)
  have i: "ignoreUntilRelease (clearKey m a) = ignoreUntilRelease m \<union> (if keys m a then {a} else {})"
    by (auto simp: clearKey_def Let_def)
  show ?case using Cons.IH [of "clearKey m a"] by (auto simp: k i)
qed

lemma clearKey_fold_flags:
  "isPaused (foldl clearKey m ks) = isPaused m
   \<and> listenersAttached (foldl clearKey m ks) = listenersAttached m"
  by (induction ks arbitrary: m) (simp_all add: clearKey_def Let_def)

lemma clearMovementKeys_held:
  "k \<in> set movementKeys \<Longrightarrow> keys m k \<Longrightarrow> heldIgnored k (clearMovementKeys m)"
  by (simp add: heldIgnored_def clearMovementKeys_def clearKey_fold_keys clearKey_fold_ignore)

lemma clearMovementKeys_all: "list_all (\<lambda>k. \<not> keys (clearMovementKeys m) k) movementKeys"
  by (simp add: list_all_iff clearMovementKeys_def clearKey_fold_keys)

lemma clearMovementKeys_keeps: "heldIgnored k m \<Longrightarrow> heldIgnored k (clearMovementKeys m)"
  by (simp add: heldIgnored_def clearMovementKeys_def clearKey_fold_keys clearKey_fold_ignore)

lemma clearMovementKeys_key: "k \<in> set movementKeys \<Longrightarrow> \<not> keys (clearMovementKeys m) k"
  by (simp add: clearMovementKeys_def clearKey_fold_keys)

lemma getInput_cleared: "\<not> movementRequested (getInput (clearMovementKeys m) b)"
proof -
  have "\<not> keys (clearMovementKeys m) ''KeyW''" "\<not> keys (clearMovementKeys m) ''ArrowUp''"
    "\<not> keys (clearMovementKeys m) ''KeyS''" "\<not> keys (clearMovementKeys m) ''ArrowDown''"
    "\<not> keys (clearMovementKeys m) ''KeyA''" "\<not> keys (clearMovementKeys m) ''ArrowLeft''"
    "\<not> keys (clearMovementKeys m) ''KeyD''" "\<not> keys (clearMovementKeys m) ''ArrowRight''"
    by (rule clearMovementKeys_key, simp add: movementKeys_def)+
  then show ?thesis by (simp add: movementRequested_def getInput_def)
qed

lemma bossCallback_fold:
  "inputManager (snd (foldl bossCallback (cs, e) evs)) = inputManager e
   \<and> playerInputs (fst (foldl bossCallback (cs, e) evs)) = playerInputs cs"
proof (induction evs arbitrary: cs e)
  case Nil
  show ?case by simp
next
  case (Cons ev evs)
  show ?case
  proof (cases ev)
    case BossWarning
    then show ?thesis
      using Cons.IH [of "cs @ handleBossWarning (getCurrentWave (waveManager e))" e]
      by (simp add: playerInputs_append handleBossWarning_def)
  next
    case (BossSpawn boss)
    then show ?thesis
      using Cons.IH [of "cs @ [AddBoss boss] @ handleBossSpawn boss"
                        "e\<lparr>currentBoss := Some boss, ge_isBossActive := True\<rparr>"]
      by (simp add: playerInputs_append handleBossSpawn_def)
  qed
qed

lemma bossCallbacks_keeps:
  "inputManager (snd (bossCallbacks e evs)) = inputManager e
   \<and> playerInputs (fst (bossCallbacks e evs)) = []"
  using bossCallback_fold [of "[]" e evs] by (simp add: bossCallbacks_def)

lemma stepWaveManager_keeps:
  "inputManager (snd (stepWaveManager e dt)) = inputManager e
   \<and> playerInputs (fst (stepWaveManager e dt)) = []"
  by (simp add: stepWaveManager_def bossCallbacks_keeps split: prod.splits)

lemma stepWaveManager_paused: "ge_isPaused (snd (stepWaveManager e dt)) = ge_isPaused e"
proof -
  have "\<And>cs e. ge_isPaused (snd (foldl bossCallback (cs, e) evs)) = ge_isPaused e" for evs
  proof (induction evs)
    case Nil
    show ?case by simp
  next
    case (Cons ev evs)
    show ?case by (cases ev) (simp_all add: Cons.IH)
  qed
  then show ?thesis by (simp add: stepWaveManager_def bossCallbacks_def split: prod.splits)
qed

lemma gsm_update_calls: "playerInputs (fst (GameStateManager_update g st dt now)) = []"
  using saveStats_calls [of g st now]
  by (auto simp: GameStateManager_update_def Let_def playerInputs_append split: prod.splits)

lemma playingFrame_keeps:
  "inputManager (snd (playingFrame e env dt)) = inputManager e
   \<and> playerInputs (fst (playingFrame e env dt)) = [getInput (inputManager e) (ge_isPaused e)]"
proof -
  obtain cs2 e2 where s2: "stepWaveManager e dt = (cs2, e2)" by (cases "stepWaveManager e dt")
  obtain es evs wm where sp: "spawnEnemies (waveManager e2) (env_canvasWidth env)
      (env_canvasHeight env) (env_enemyCount env) (Some (env_playerPos env)) (env_rand1 env)
      (env_rand2 env) = (es, evs, wm)"
    by (cases "spawnEnemies (waveManager e2) (env_canvasWidth env)
      (env_canvasHeight env) (env_enemyCount env) (Some (env_playerPos env)) (env_rand1 env)
      (env_rand2 env)") auto
  obtain cs3 e3 where s3: "bossCallbacks (e2\<lparr>waveManager := wm\<rparr>) evs = (cs3, e3)"
    by (cases "bossCallbacks (e2\<lparr>waveManager := wm\<rparr>) evs")
  obtain cs5 g where s5: "GameStateManager_update (gameStateManager e3)
      (env_collisions env (setWave (store e3) (getCurrentWave (waveManager e3)))) dt (env_now env) = (cs5, g)"
    by (cases "GameStateManager_update (gameStateManager e3)
      (env_collisions env (setWave (store e3) (getCurrentWave (waveManager e3)))) dt (env_now env)")
  have i2: "inputManager e2 = inputManager e" "playerInputs cs2 = []"
    using stepWaveManager_keeps [of e dt] s2 by simp_all
  have i3: "inputManager e3 = inputManager e2" "playerInputs cs3 = []"
    using bossCallbacks_keeps [of "e2\<lparr>waveManager := wm\<rparr>" evs] s3 by simp_all
  have i5: "playerInputs cs5 = []"
    using gsm_update_calls [of "gameStateManager e3"
      "env_collisions env (setWave (store e3) (getCurrentWave (waveManager e3)))" dt "env_now env"] s5
    by simp
  show ?thesis
    by (simp add: playingFrame_def s2 sp s3 s5 i2 i3 i5 Let_def handleBossDefeated_def
        playerInputs_append)
qed

lemma update_inputManager:
  "inputManager (snd (GameEngine_update e env dt)) = inputManager (snd (pausePrelude e env))"
  by (simp add: GameEngine_update_def GameEngine_saveCurrentSessionStats_def
      GameEngine_handlePlayerDeath_def stepWaveManager_keeps playingFrame_keeps
      case_prod_beta)


lemma pausePrelude_input:
  "inputManager (snd (pausePrelude e env))
     = (let im1 = setPaused (inputManager e) (phaseSeen e env = paused \<or> phaseSeen e env = levelUp)
        in if (previousPhase e = paused \<or> previousPhase e = levelUp) \<and> phaseSeen e env = playing
           then clearMovementKeys im1 else im1)"
  by (simp add: phaseSeen_def pausePrelude_def Let_def split: prod.splits)

lemma setPaused_keeps: "heldIgnored k (setPaused m b) = heldIgnored k m"
  by (simp add: heldIgnored_def setPaused_def)

lemma update_keeps_held:
  "heldIgnored k (inputManager e) \<Longrightarrow> heldIgnored k (inputManager (snd (GameEngine_update e env dt)))"
  by (simp add: update_inputManager pausePrelude_input Let_def setPaused_keeps
      clearMovementKeys_keeps)

lemma fireTimers_input: "inputManager (fireTimers e now) = inputManager e"
  by (simp add: fireTimers_def)

lemma dispatch_keeps_held:
  assumes "heldIgnored k (inputManager e)" and "ev \<noteq> KeyUp k"
  shows "heldIgnored k (inputManager (snd (dispatch e ev)))"
proof (cases ev)
  case (KeyDown c)
  with assms show ?thesis by (auto simp: heldIgnored_def handleKeyDown_def Let_def)
next
  case (KeyUp c)
  with assms show ?thesis by (auto simp: heldIgnored_def handleKeyUp_def)
next
  case (Frame env dt)
  with assms show ?thesis by (simp add: update_keeps_held fireTimers_input)
qed

lemma run_keeps_held:
  "heldIgnored k (inputManager e) \<Longrightarrow> list_all (\<lambda>ev. ev \<noteq> KeyUp k) evs
     \<Longrightarrow> heldIgnored k (inputManager (snd (run e evs)))"
proof (induction evs arbitrary: e)
  case Nil
  then show ?case by simp
next
  case (Cons ev evs)
  from Cons.prems have "heldIgnored k (inputManager (snd (dispatch e ev)))"
    by (simp add: dispatch_keeps_held)
  moreover from Cons.prems have "list_all (\<lambda>ev. ev \<noteq> KeyUp k) evs" by simp
  ultimately show ?case by (simp only: run_Cons_snd Cons.IH)
qed

lemma resume_input:
  assumes "previousPhase e = paused \<or> previousPhase e = levelUp" and "phaseSeen e env = playing"
  shows "inputManager (snd (GameEngine_update e env dt))
           = clearMovementKeys (setPaused (inputManager e) False)"
  using assms by (simp add: update_inputManager pausePrelude_input)

lemma resume_calls:
  assumes "previousPhase e = paused \<or> previousPhase e = levelUp" and "phaseSeen e env = playing"
  shows "list_all (\<lambda>i. \<not> movementRequested i) (playerInputs (fst (GameEngine_update e env dt)))"
proof -
  let ?p = "snd (pausePrelude e env)"
  have im: "inputManager ?p = clearMovementKeys (setPaused (inputManager e) False)"
    using assms by (simp add: pausePrelude_input)
  have ph: "phase (store ?p) = playing" "\<not> ge_isPaused ?p"
    using assms(2) pausePrelude_fields [of e env] by simp_all
  have pre: "playerInputs (fst (pausePrelude e env)) = []"
    using pausePrelude_calls [of e env] by auto
  have mv: "\<not> movementRequested (getInput (inputManager ?p) b)" for b
    by (simp add: im getInput_cleared)
  show ?thesis
    using ph pre mv
    by (simp add: GameEngine_update_def GameEngine_saveCurrentSessionStats_def
        GameEngine_handlePlayerDeath_def handlePlayerDeath_def playingFrame_keeps
        playerInputs_append case_prod_beta Let_def)
qed

lemma release_and_press:
  assumes "listenersAttached (inputManager e)" and "\<not> isPaused (inputManager e)"
  shows "keys (inputManager (snd (run e [KeyUp k, KeyDown k]))) k"
  using assms by (simp add: handleKeyUp_def handleKeyDown_def Let_def)

text \<open>
  C7, amended: in a frame whose predecessor saw the phase \<open>paused\<close> or \<open>levelUp\<close>
  and which itself works with the phase \<open>playing\<close>, every movement key reads as not
  pressed afterwards, and a movement key \<open>k\<close> that the adapter records as pressed
  (\<^verbatim>\<open>keys[k]\<close> is true, the key went down before the pause) is in the
  ignore-until-release set. The player input of that frame requests no movement. Through
  any later key events and frames without a release of \<open>k\<close>, the key \<open>k\<close> stays not
  pressed; once it is released and pressed again it reads as pressed.
\<close>

theorem resume_clears_movement:
  assumes "previousPhase e = paused \<or> previousPhase e = levelUp"
    and "phaseSeen e env = playing"
    and "k \<in> set movementKeys" and "keys (inputManager e) k"
  shows "list_all (\<lambda>c. \<not> keys (inputManager (snd (GameEngine_update e env dt))) c) movementKeys
       \<and> k \<in> ignoreUntilRelease (inputManager (snd (GameEngine_update e env dt)))
       \<and> list_all (\<lambda>i. \<not> movementRequested i) (playerInputs (fst (GameEngine_update e env dt)))
       \<and> (list_all (\<lambda>ev. ev \<noteq> KeyUp k) evs \<longrightarrow>
            \<not> keys (inputManager (snd (run (snd (GameEngine_update e env dt)) evs))) k)
       \<and> (listenersAttached (inputManager e) \<longrightarrow>
            keys (inputManager (snd (run (snd (GameEngine_update e env dt)) [KeyUp k, KeyDown k]))) k)"
proof -
  let ?e' = "snd (GameEngine_update e env dt)"
  have im: "inputManager ?e' = clearMovementKeys (setPaused (inputManager e) False)"
    using assms(1,2) by (rule resume_input)
  have "keys (setPaused (inputManager e) False) k" using assms(4) by (simp add: setPaused_def)
  with assms(3) have held: "heldIgnored k (inputManager ?e')"
    by (simp add: im clearMovementKeys_held)
  have all: "list_all (\<lambda>c. \<not> keys (inputManager ?e') c) movementKeys"
    by (simp add: im clearMovementKeys_all)
  have calls: "list_all (\<lambda>i. \<not> movementRequested i) (playerInputs (fst (GameEngine_update e env dt)))"
    using assms(1,2) by (rule resume_calls)
  have later: "list_all (\<lambda>ev. ev \<noteq> KeyUp k) evs \<longrightarrow> \<not> keys (inputManager (snd (run ?e' evs))) k"
    using run_keeps_held [OF held, of evs] by (simp add: heldIgnored_def)
  have flags: "\<not> isPaused (inputManager ?e')"
    "listenersAttached (inputManager ?e') = listenersAttached (inputManager e)"
    by (simp_all add: im clearMovementKeys_def clearKey_fold_flags setPaused_def)
  have again: "listenersAttached (inputManager e) \<longrightarrow>
      keys (inputManager (snd (run ?e' [KeyUp k, KeyDown k]))) k"
    using release_and_press [of ?e' k] flags by blast
  from all held calls later again show ?thesis by (simp add: heldIgnored_def)
qed

theorem resume_clears_movement_witness:
  "previousPhase (inPhase paused playing 100) = paused
   \<and> phaseSeen (inPhase paused playing 100) (frameAt 1000) = playing
   \<and> ''KeyW'' \<in> set movementKeys
   \<and> keys (inputManager (inPhase paused playing 100)) ''KeyW''
   \<and> listenersAttached (inputManager (inPhase paused playing 100))
   \<and> ''KeyW'' \<in> ignoreUntilRelease (inputManager resumed)
   \<and> list_all (\<lambda>c. \<not> keys (inputManager resumed) c) movementKeys
   \<and> list_all (\<lambda>i. \<not> movementRequested i)
        (playerInputs (fst (GameEngine_update (inPhase paused playing 100) (frameAt 1000) 0.016)))
   \<and> \<not> keys (inputManager (snd (run resumed [KeyDown ''KeyW'', Frame (frameAt 1016) 0.016,
                                               KeyDown ''KeyW''])))  ''KeyW''
   \<and> keys (inputManager (snd (run resumed [KeyUp ''KeyW'', KeyDown ''KeyW''])))  ''KeyW''"
proof -
  let ?e = "inPhase paused playing 100"
  define evs where "evs = [KeyDown ''KeyW'', Frame (frameAt 1016) 0.016, KeyDown ''KeyW'']"
  have h1: "previousPhase ?e = paused \<or> previousPhase ?e = levelUp"
    and h1': "previousPhase ?e = paused"
    by (simp_all add: inPhase_def)
  have h2: "phaseSeen ?e (frameAt 1000) = playing"
    by (simp add: phaseSeen_def pausePrelude_def handlePauseInput_def getInput_def inPhase_def
        newGameEngine_def newGameStateManager_def newInputManager_def addEventListeners_def
        handleKeyDown_def frameAt_def setPaused_def Let_def)
  have h3: "''KeyW'' \<in> set movementKeys" by (simp add: movementKeys_def)
  have h4: "keys (inputManager ?e) ''KeyW''" and h5: "listenersAttached (inputManager ?e)"
    by (simp_all add: inPhase_def handleKeyDown_def newInputManager_def addEventListeners_def)
  have h6: "list_all (\<lambda>ev. ev \<noteq> KeyUp ''KeyW'') evs" by (simp add: evs_def)
  from resume_clears_movement [OF h1 h2 h3 h4, of "0.016" evs] h5 h6
  have "''KeyW'' \<in> ignoreUntilRelease (inputManager resumed)"
    "list_all (\<lambda>c. \<not> keys (inputManager resumed) c) movementKeys"
    "list_all (\<lambda>i. \<not> movementRequested i) (playerInputs (fst (GameEngine_update ?e (frameAt 1000) 0.016)))"
    "\<not> keys (inputManager (snd (run resumed evs))) ''KeyW''"
    "keys (inputManager (snd (run resumed [KeyUp ''KeyW'', KeyDown ''KeyW'']))) ''KeyW''"
    unfolding resumed_def by blast+
  with h1' h2 h3 h4 h5 show ?thesis unfolding evs_def by blast
qed


section \<open>Orchestrator: the death of the player\<close>

lemmas engine_eval =
  inPhase_def newGameEngine_def newGameStateManager_def newInputManager_def addEventListeners_def
  newWaveManager_def setOnBossSpawn_def setOnBossWarning_def
  handleKeyDown_def frameAt_def setPaused_def fireTimers_def GameEngine_update_def
  pausePrelude_def handlePauseInput_def getInput_def checkPlayerDeath_def
  GameEngine_handlePlayerDeath_def handlePlayerDeath_def GameEngine_saveCurrentSessionStats_def
  STATS_SAVE_INTERVAL_def gs_end_def Let_def

lemma death_frame1:
  "dispatch (inPhase playing playing 0) (Frame (frameAt 1000) 0.016)
     = ([CreateDeathParticles, RecordRun 250 1, RecordRunEnd 250 1, AddCurrency 12, LoadCurrency,
         ClearSessionSnapshot, PlayPlayerHurt, SetTimeoutEnd 50],
        (inPhase playing playing 0)\<lparr>pendingEnd := [1050]\<rparr>)"
  by (simp add: engine_eval)

lemma death_frame2:
  "dispatch ((inPhase playing playing 0)\<lparr>pendingEnd := [1050]\<rparr>) (Frame (frameAt 1016) 0.016)
     = ([CreateDeathParticles, RecordRun 250 1, RecordRunEnd 250 1, AddCurrency 12, LoadCurrency,
         ClearSessionSnapshot, PlayPlayerHurt, SetTimeoutEnd 50],
        (inPhase playing playing 0)\<lparr>pendingEnd := [1050, 1066]\<rparr>)"
  by (simp add: engine_eval)

text \<open>
  C2 says that a run whose player dies records its statistics and awards its currency
  exactly once, also when the health stays at or below zero over several frames before
  the phase changes. \<^verbatim>\<open>handlePlayerDeath\<close> defers the phase change by 50 ms and leaves
  the phase at \<open>playing\<close>; with the health at 0 and two frames 16 ms apart, both frames
  pass \<^verbatim>\<open>checkPlayerDeath\<close>, and the run is recorded twice and the currency awarded
  twice, while two timers are pending.
\<close>

theorem death_recorded_twice:
  "checkPlayerDeath (store (inPhase playing playing 0))
   \<and> length (filter isRecordRun
        (fst (run (inPhase playing playing 0) [Frame (frameAt 1000) 0.016, Frame (frameAt 1016) 0.016]))) = 2
   \<and> length (filter isRecordRunEnd
        (fst (run (inPhase playing playing 0) [Frame (frameAt 1000) 0.016, Frame (frameAt 1016) 0.016]))) = 2
   \<and> length (filter isAddCurrency
        (fst (run (inPhase playing playing 0) [Frame (frameAt 1000) 0.016, Frame (frameAt 1016) 0.016]))) = 2
   \<and> phase (store (snd (run (inPhase playing playing 0)
        [Frame (frameAt 1000) 0.016, Frame (frameAt 1016) 0.016]))) = playing
   \<and> pendingEnd (snd (run (inPhase playing playing 0)
        [Frame (frameAt 1000) 0.016, Frame (frameAt 1016) 0.016])) = [1050, 1066]"
proof -
  have r: "run (inPhase playing playing 0) [Frame (frameAt 1000) 0.016, Frame (frameAt 1016) 0.016]
     = ([CreateDeathParticles, RecordRun 250 1, RecordRunEnd 250 1, AddCurrency 12, LoadCurrency,
         ClearSessionSnapshot, PlayPlayerHurt, SetTimeoutEnd 50,
         CreateDeathParticles, RecordRun 250 1, RecordRunEnd 250 1, AddCurrency 12, LoadCurrency,
         ClearSessionSnapshot, PlayPlayerHurt, SetTimeoutEnd 50],
        (inPhase playing playing 0)\<lparr>pendingEnd := [1050, 1066]\<rparr>)"
    by (simp only: run.simps death_frame1 death_frame2 prod.case append.simps)
  have c: "checkPlayerDeath (store (inPhase playing playing 0))"
    by (simp add: checkPlayerDeath_def inPhase_def newGameEngine_def)
  show ?thesis unfolding r using c by (simp add: inPhase_def newGameEngine_def)
qed

section \<open>Orchestrator: a key pressed during the pause\<close>

lemma playing_calls:
  assumes "phaseSeen e env = playing" and "\<not> checkPlayerDeath (store (snd (pausePrelude e env)))"
  shows "playerInputs (fst (GameEngine_update e env dt))
           = [getInput (inputManager (snd (pausePrelude e env))) False]"
proof -
  let ?p = "snd (pausePrelude e env)"
  have ph: "phase (store ?p) = playing" "\<not> ge_isPaused ?p"
    using assms(1) pausePrelude_fields [of e env] by simp_all
  have pre: "playerInputs (fst (pausePrelude e env)) = []"
    using pausePrelude_calls [of e env] by auto
  show ?thesis
    using ph pre assms(2)
    by (simp add: GameEngine_update_def GameEngine_saveCurrentSessionStats_def
        playingFrame_keeps playerInputs_append case_prod_beta Let_def)
qed

lemma pressedInPause_eq:
  "pressedInPause
     = (inPhase paused paused 100)
         \<lparr> gameStateManager := (newGameStateManager 0)\<lparr>lastPauseState := False\<rparr>,
           inputManager := \<lparr> keys = (\<lambda>k. False)(''KeyW'' := True, ''Escape'' := True),
                              ignoreUntilRelease = {}, isPaused = True, listenersAttached = True \<rparr> \<rparr>"
  by (simp add: pressedInPause_def engine_eval emptyInput_def handleKeyUp_def fun_upd_twist)


lemma pressedInPause_seen: "phaseSeen pressedInPause (frameAt 1016) = playing"
  by (simp add: pressedInPause_eq phaseSeen_def pausePrelude_def handlePauseInput_def getInput_def
      inPhase_def newGameEngine_def newGameStateManager_def frameAt_def setPaused_def
      gs_resume_def Let_def)

lemmas frame_eval =
  playingFrame_def stepWaveManager_def bossCallbacks_def WaveManager_update_def spawnEnemies_def
  isBossWave_def js_rem_def bossSpawnInterval_def waveDuration_def GameStateManager_update_def
  saveCurrentSessionStats_def setWave_def getCurrentWave_def gs_resume_def
  clearMovementKeys_def movementKeys_def clearKey_def

lemma afterResume_facts:
  "phase (store afterResume) = playing"
  "health (store afterResume) = 100"
  "lastPauseState (gameStateManager afterResume)"
  "previousPhase afterResume = playing"
  "ge_lastStatsSaveTime afterResume = 0"
  "pendingEnd afterResume = []"
  "\<not> keys (inputManager afterResume) ''KeyD''"
  "keys (inputManager afterResume) ''Escape''"
  "''KeyD'' \<notin> ignoreUntilRelease (inputManager afterResume)"
  "\<not> isPaused (inputManager afterResume)"
  "listenersAttached (inputManager afterResume)"
  by (simp_all add: afterResume_def pressedInPause_eq engine_eval frame_eval)


lemma autoRepeat_facts:
  "phase (store autoRepeat) = playing"
  "health (store autoRepeat) = 100"
  "lastPauseState (gameStateManager autoRepeat)"
  "previousPhase autoRepeat = playing"
  "keys (inputManager autoRepeat) ''KeyD''"
  "keys (inputManager autoRepeat) ''Escape''"
  by (simp_all add: autoRepeat_def afterResume_facts fireTimers_def handleKeyDown_def)

lemma autoRepeat_seen: "phaseSeen autoRepeat (frameAt 1033) = playing"
  by (simp add: phaseSeen_def pausePrelude_def handlePauseInput_def getInput_def
      autoRepeat_facts Let_def)

lemma autoRepeat_alive: "\<not> checkPlayerDeath (store (snd (pausePrelude autoRepeat (frameAt 1033))))"
  by (simp add: pausePrelude_def handlePauseInput_def getInput_def checkPlayerDeath_def
      autoRepeat_facts Let_def)

lemma autoRepeat_right:
  "right (getInput (inputManager (snd (pausePrelude autoRepeat (frameAt 1033)))) False)"
  using autoRepeat_seen
  by (simp add: pausePrelude_input getInput_def setPaused_def autoRepeat_facts Let_def)

text \<open>
  C7, as stated: every movement key that is held when play resumes is cleared and ignored
  until its release, so it produces no movement before it is released and pressed again.
  The key D goes down while the game is paused; \<^verbatim>\<open>handleKeyDown\<close> drops the event, so
  \<^verbatim>\<open>keys\<close> does not record it. The frame that resumes play therefore does not put D in
  the ignore-until-release set, and the next key-down event of the key, which was never
  released, makes the following frame pass \<open>right = True\<close> to the player.
\<close>

theorem resume_clears_movement_counterexample:
  "previousPhase pressedInPause = paused
   \<and> phaseSeen pressedInPause (frameAt 1016) = playing
   \<and> ''KeyD'' \<in> set movementKeys
   \<and> isPaused (inputManager pressedInPause)
   \<and> \<not> keys (inputManager pressedInPause) ''KeyD''
   \<and> ''KeyD'' \<notin> ignoreUntilRelease (inputManager afterResume)
   \<and> list_all (\<lambda>ev. ev \<noteq> KeyUp ''KeyD'') [KeyDown ''KeyD'', Frame (frameAt 1033) 0.016]
   \<and> map right (playerInputs (fst (run afterResume [KeyDown ''KeyD'', Frame (frameAt 1033) 0.016])))
        = [True]"
proof -
  have a: "previousPhase pressedInPause = paused" "isPaused (inputManager pressedInPause)"
    "\<not> keys (inputManager pressedInPause) ''KeyD''"
    by (simp_all add: pressedInPause_eq inPhase_def)
  have b: "''KeyD'' \<in> set movementKeys" by (simp add: movementKeys_def)
  have c: "list_all (\<lambda>ev. ev \<noteq> KeyUp ''KeyD'') [KeyDown ''KeyD'', Frame (frameAt 1033) 0.016]"
    by simp
  have "fst (run afterResume [KeyDown ''KeyD'', Frame (frameAt 1033) 0.016])
          = fst (GameEngine_update autoRepeat (frameAt 1033) 0.016)"
    by (simp add: autoRepeat_def case_prod_beta)
  then have d: "map right (playerInputs (fst (run afterResume
                  [KeyDown ''KeyD'', Frame (frameAt 1033) 0.016]))) = [True]"
    using playing_calls [OF autoRepeat_seen autoRepeat_alive, of "0.016"] autoRepeat_right
    by simp
  from a b c d pressedInPause_seen afterResume_facts(9) show ?thesis by blast
qed

end
